theory Spec2Isabelle
  imports Main "HOL-Library.AList"
begin

section \<open>Values, items, responses\<close>

text \<open>
  The backend is one file of HTTP handlers (\<^verbatim>\<open>src/index.js\<close>). Each handler reads the
  request body, calls the key-value store, the face-match service and the object store,
  and answers with a JSON object. The model below keeps that shape: a handler is a
  function from the environment of the call, the request fields and the state of the
  external stores to the response and the new state.

  A JavaScript object with scalar attributes (a stored item, a response body) is an
  association list from attribute names to values; an attribute that is not in the list
  reads as \<^verbatim>\<open>undefined\<close>.
\<close>

datatype val = Null | B bool | N int | S string

type_synonym item = "(string \<times> val) list"

definition attr :: "item \<Rightarrow> string \<Rightarrow> val option" where
  "attr it k = map_of it k"

text \<open>JavaScript truthiness of an attribute read (\<^verbatim>\<open>!x\<close>, \<^verbatim>\<open>x || y\<close>, \<^verbatim>\<open>if (x)\<close>).\<close>

fun truthy :: "val option \<Rightarrow> bool" where
  "truthy None = False"
| "truthy (Some Null) = False"
| "truthy (Some (B b)) = b"
| "truthy (Some (N n)) = (n \<noteq> 0)"
| "truthy (Some (S s)) = (s \<noteq> [])"

text \<open>
  Request fields are JSON strings. A field that is absent and a field that holds the empty
  string are both falsy, and the handlers below only ever test a field with \<^verbatim>\<open>!x\<close> or
  \<^verbatim>\<open>x || y\<close> before using it, so an absent field is represented by the empty string.
\<close>

definition missing :: "string \<Rightarrow> bool" where
  "missing x = (x = [])"

definition orElse :: "string \<Rightarrow> string \<Rightarrow> string" where
  "orElse x y = (if x = [] then y else x)"

subsection \<open>Number and string conversions\<close>

definition digitChar :: "nat \<Rightarrow> char" where
  "digitChar d = ''0123456789'' ! (d mod 10)"

definition isDigit :: "char \<Rightarrow> bool" where
  "isDigit c = (c \<in> set ''0123456789'')"

text \<open>\<^verbatim>\<open>Number.prototype.toString()\<close> on a non-negative integer.\<close>

fun natToString :: "nat \<Rightarrow> string" where
  "natToString n =
     (if n < 10 then [digitChar n] else natToString (n div 10) @ [digitChar (n mod 10)])"

declare natToString.simps [simp del]

definition intToString :: "int \<Rightarrow> string" where
  "intToString i = (if i < 0 then CHR ''-'' # natToString (nat (- i)) else natToString (nat i))"

text \<open>\<^verbatim>\<open>s.slice(-k)\<close>: the last \<open>k\<close> characters, the whole string when it is shorter.\<close>

definition sliceLast :: "nat \<Rightarrow> string \<Rightarrow> string" where
  "sliceLast k s = drop (length s - k) s"

text \<open>\<^verbatim>\<open>s.padStart(k, c)\<close> with a one-character pad.\<close>

definition padStart :: "nat \<Rightarrow> char \<Rightarrow> string \<Rightarrow> string" where
  "padStart k c s = replicate (k - length s) c @ s"

text \<open>The string a value turns into inside a template literal.\<close>

fun toStr :: "val \<Rightarrow> string" where
  "toStr Null = ''null''"
| "toStr (B b) = (if b then ''true'' else ''false'')"
| "toStr (N n) = intToString n"
| "toStr (S s) = s"

text \<open>
  \<^verbatim>\<open>imageBase64.replace(/^data:image\/[a-zA-Z]+;base64,/, '')\<close>: a leading data-URL header is
  removed. The buffer decoded from the remaining base64 text is represented by that text.
\<close>

definition isAlpha :: "char \<Rightarrow> bool" where
  "isAlpha c = (c \<in> set ''abcdefghijklmnopqrstuvwxyzABCDEFGHIJKLMNOPQRSTUVWXYZ'')"

definition stripPrefix :: "string \<Rightarrow> string \<Rightarrow> string option" where
  "stripPrefix p s = (if take (length p) s = p then Some (drop (length p) s) else None)"

definition imageBufferOf :: "string \<Rightarrow> string" where
  "imageBufferOf s =
     (case stripPrefix ''data:image/'' s of
        None \<Rightarrow> s
      | Some r \<Rightarrow>
          (if takeWhile isAlpha r = [] then s
           else (case stripPrefix '';base64,'' (dropWhile isAlpha r) of
                   None \<Rightarrow> s
                 | Some payload \<Rightarrow> payload)))"

subsection \<open>Responses\<close>

record response =
  status :: nat
  body :: item

definition json :: "nat \<Rightarrow> item \<Rightarrow> response" where
  "json st b = \<lparr>status = st, body = b\<rparr>"

section \<open>The external stores\<close>

datatype tbl = USERS_TABLE | SESSIONS_TABLE | ATTENDANCE_TABLE | TIMETABLE_TABLE

fun keyAttr :: "tbl \<Rightarrow> string" where
  "keyAttr USERS_TABLE = ''userId''"
| "keyAttr SESSIONS_TABLE = ''sessionId''"
| "keyAttr ATTENDANCE_TABLE = ''attendanceId''"
| "keyAttr TIMETABLE_TABLE = ''timetableId''"

text \<open>
  A face of the collection has the identifier the service gave it and the external image id
  it was indexed with, if any. A match of a search response carries the matched face and
  its similarity (a percentage, passed through to the caller only).
\<close>

record face =
  FaceId :: string
  ExternalImageId :: "string option"

record face_match =
  Similarity :: int
  Face :: face

text \<open>
  The state outside the process: the four tables of the key-value store (each a map from
  the key attribute to the item), the objects of the bucket, and the faces of the
  face-match collection in the order in which they were indexed.
\<close>

record world =
  ddb :: "tbl \<Rightarrow> string \<rightharpoonup> item"
  bucket :: "string \<rightharpoonup> string"
  collection :: "face list"

datatype call =
    GetCommand tbl string
  | PutCommand tbl string
  | UpdateCommand tbl string
  | PutObjectCommand string
  | IndexFacesCommand string

datatype search_result =
    SearchError string string
  | SearchResponse "face_match list option"

text \<open>
  What one request sees of its surroundings: the clock, the random number, the
  configuration, which calls to the stores are rejected (with which message), and what the
  face-match service answers. Image analysis is the service's business, so its answers
  are given from outside: \<open>searchFacesByImage\<close> answers a search command (collection,
  image, MaxFaces, FaceMatchThreshold) with an error (name, message) or with the
  \<^verbatim>\<open>FaceMatches\<close> of the response, and \<open>detectedFaces\<close> gives the face identifiers that
  an index command (collection, image, external image id) assigns to the faces it finds.
\<close>

record env =
  dateNow :: nat
  dateIso :: string
  random100 :: nat
  REKOG_COLLECTION :: string
  FACE_MATCH_THRESHOLD :: nat
  rejects :: "call \<Rightarrow> string option"
  searchFacesByImage :: "string \<Rightarrow> string \<Rightarrow> nat \<Rightarrow> nat \<Rightarrow> search_result"
  detectedFaces :: "string \<Rightarrow> string \<Rightarrow> string \<Rightarrow> string list"

text \<open>
  The store adapter. A call either throws (\<open>Inl\<close> the message) or returns. A key must be
  a non-empty string, or the store rejects the call.
\<close>

definition validationError :: string where
  "validationError = ''ValidationException''"

definition ddbGet :: "env \<Rightarrow> tbl \<Rightarrow> val option \<Rightarrow> world \<Rightarrow> string + item option" where
  "ddbGet e t key w =
     (case key of
        Some (S k) \<Rightarrow>
          (if k = [] then Inl validationError
           else (case rejects e (GetCommand t k) of
                   Some m \<Rightarrow> Inl m
                 | None \<Rightarrow> Inr (ddb w t k)))
      | _ \<Rightarrow> Inl validationError)"

definition ddbPut :: "env \<Rightarrow> tbl \<Rightarrow> item \<Rightarrow> world \<Rightarrow> string + world" where
  "ddbPut e t it w =
     (case attr it (keyAttr t) of
        Some (S k) \<Rightarrow>
          (if k = [] then Inl validationError
           else (case rejects e (PutCommand t k) of
                   Some m \<Rightarrow> Inl m
                 | None \<Rightarrow> Inr (w\<lparr>ddb := (ddb w)(t := (ddb w t)(k \<mapsto> it))\<rparr>)))
      | _ \<Rightarrow> Inl validationError)"

text \<open>
  An update with a \<^verbatim>\<open>SET\<close> expression writes the given attributes into the item of that
  key, and creates the item (with its key attribute) when there is none.
\<close>

definition setAttrs :: "item \<Rightarrow> item \<Rightarrow> item" where
  "setAttrs sets it = fold (\<lambda>(k, v). AList.update k v) sets it"

definition ddbUpdate :: "env \<Rightarrow> tbl \<Rightarrow> string \<Rightarrow> item \<Rightarrow> world \<Rightarrow> string + world" where
  "ddbUpdate e t k sets w =
     (if k = [] then Inl validationError
      else (case rejects e (UpdateCommand t k) of
              Some m \<Rightarrow> Inl m
            | None \<Rightarrow>
                (let old = (case ddb w t k of None \<Rightarrow> [(keyAttr t, S k)] | Some it \<Rightarrow> it)
                 in Inr (w\<lparr>ddb := (ddb w)(t := (ddb w t)(k \<mapsto> setAttrs sets old))\<rparr>))))"

definition uploadToS3 :: "env \<Rightarrow> string \<Rightarrow> string \<Rightarrow> world \<Rightarrow> string + world" where
  "uploadToS3 e key buffer w =
     (case rejects e (PutObjectCommand key) of
        Some m \<Rightarrow> Inl m
      | None \<Rightarrow> Inr (w\<lparr>bucket := (bucket w)(key \<mapsto> buffer)\<rparr>))"

text \<open>
  Indexing adds one face per detected face to the collection, each tagged with the external
  image id of the command, and returns their identifiers (\<^verbatim>\<open>FaceRecords\<close>).
\<close>

definition tagged :: "string \<Rightarrow> string \<Rightarrow> face" where
  "tagged ext i = \<lparr>FaceId = i, ExternalImageId = Some ext\<rparr>"

definition indexFaces :: "env \<Rightarrow> string \<Rightarrow> string \<Rightarrow> world \<Rightarrow> string + (string list \<times> world)" where
  "indexFaces e buffer ext w =
     (case rejects e (IndexFacesCommand ext) of
        Some m \<Rightarrow> Inl m
      | None \<Rightarrow>
          (let ids = detectedFaces e (REKOG_COLLECTION e) buffer ext
           in Inr (ids, w\<lparr>collection := collection w @ map (tagged ext) ids\<rparr>)))"

definition serverError :: "string \<Rightarrow> response" where
  "serverError m = json 500 [(''success'', B False), (''error'', S m)]"

section \<open>Registration\<close>

text \<open>\<^verbatim>\<open>POST /auth/register\<close>.\<close>

definition rolePrefix :: "string \<Rightarrow> string" where
  "rolePrefix role = (if role = ''student'' then ''1'' else ''2'')"

definition tempId :: "env \<Rightarrow> string \<Rightarrow> string" where
  "tempId e role =
     rolePrefix role
     @ sliceLast 8 (natToString (dateNow e))
     @ padStart 2 (CHR ''0'') (natToString (random100 e))"

definition duplicateFace :: "string \<Rightarrow> response" where
  "duplicateFace msg =
     json 409 [(''success'', B False), (''error'', S msg), (''code'', S ''DUPLICATE_FACE'')]"

text \<open>
  The duplicate check of the handler: \<open>Some\<close> the 409 response when the search returns a
  match, \<open>None\<close> when registration goes on (no match, or the search threw).
\<close>

definition duplicateCheck :: "env \<Rightarrow> string \<Rightarrow> world \<Rightarrow> response option" where
  "duplicateCheck e imageBuffer w =
     (case searchFacesByImage e (REKOG_COLLECTION e) imageBuffer 1 80 of
        SearchError nm msg \<Rightarrow> None
      | SearchResponse None \<Rightarrow> None
      | SearchResponse (Some []) \<Rightarrow> None
      | SearchResponse (Some (match # rest)) \<Rightarrow>
          (let existingUserId = ExternalImageId (Face match)
           in (case ddbGet e USERS_TABLE (map_option S existingUserId) w of
                 Inl err \<Rightarrow>
                   Some (duplicateFace
                     ''This face is already registered to another user. Each person can only register once.'')
               | Inr existingUser \<Rightarrow>
                   (let fallback = (case existingUserId of None \<Rightarrow> ''undefined'' | Some i \<Rightarrow> i);
                        shown = (case existingUser of
                                   None \<Rightarrow> fallback
                                 | Some u \<Rightarrow>
                                     (case attr u ''name'' of
                                        None \<Rightarrow> fallback
                                      | Some v \<Rightarrow> if truthy (Some v) then toStr v else fallback))
                    in Some (duplicateFace
                         (''This face is already registered to another user: '' @ shown
                          @ ''. Each person can only register once.''))))))"

definition auth_register ::
  "env \<Rightarrow> string \<Rightarrow> string \<Rightarrow> string \<Rightarrow> string \<Rightarrow> world \<Rightarrow> response \<times> world" where
  "auth_register e name email role imageBase64 w =
     (if missing name \<or> missing email \<or> missing role \<or> missing imageBase64
      then (json 400 [(''success'', B False), (''error'', S ''Missing fields'')], w)
      else
        (case duplicateCheck e (imageBufferOf imageBase64) w of
           Some r \<Rightarrow> (r, w)
         | None \<Rightarrow>
            (let userId = tempId e role;
                 it = [(''userId'', S userId), (''name'', S name), (''email'', S email),
                       (''role'', S role), (''approved'', B False), (''faceImage'', S imageBase64)]
             in (case ddbPut e USERS_TABLE it w of
                   Inl err \<Rightarrow> (serverError err, w)
                 | Inr w' \<Rightarrow>
                     (json 200 [(''success'', B True), (''message'', S ''Registration submitted''),
                                (''userId'', S userId)], w')))))"

section \<open>Approval\<close>

text \<open>
  \<^verbatim>\<open>POST /admin/approve\<close>. Effects that happened before a later call throws stay. The
  face id of the answer is \<^verbatim>\<open>indexResp.FaceRecords?.[0]?.Face?.FaceId || null\<close>.
\<close>

definition firstFaceId :: "string list \<Rightarrow> val" where
  "firstFaceId ids = (case ids of [] \<Rightarrow> Null | i # rest \<Rightarrow> if i = [] then Null else S i)"

text \<open>The attributes that the update expression of the approval sets.\<close>

definition approvalUpdate :: "env \<Rightarrow> string \<Rightarrow> val \<Rightarrow> string \<Rightarrow> item" where
  "approvalUpdate e password faceId key =
     [(''approved'', B True), (''password'', S password), (''faceId'', faceId),
      (''photoKey'', S key), (''isActive'', B True), (''approvedAt'', S (dateIso e))]"

definition admin_approve :: "env \<Rightarrow> string \<Rightarrow> string \<Rightarrow> world \<Rightarrow> response \<times> world" where
  "admin_approve e userId password w =
     (if missing userId \<or> missing password
      then (json 400 [(''success'', B False), (''error'', S ''userId and password required'')], w)
      else
        (case ddbGet e USERS_TABLE (Some (S userId)) w of
           Inl err \<Rightarrow> (serverError err, w)
         | Inr None \<Rightarrow> (json 404 [(''success'', B False), (''error'', S ''User not found'')], w)
         | Inr (Some user) \<Rightarrow>
            (if \<not> truthy (attr user ''faceImage'')
             then (json 400 [(''success'', B False), (''error'', S ''No face image for user'')], w)
             else
               (case attr user ''faceImage'' of
                  Some (S faceImage) \<Rightarrow>
                    (let imageBuffer = imageBufferOf faceImage;
                         key = userId @ ''.jpg''
                     in (case uploadToS3 e key imageBuffer w of
                           Inl err \<Rightarrow> (serverError err, w)
                         | Inr w1 \<Rightarrow>
                            (case indexFaces e imageBuffer userId w1 of
                               Inl err \<Rightarrow> (serverError err, w1)
                             | Inr (ids, w2) \<Rightarrow>
                                (let faceId = firstFaceId ids
                                 in (case ddbUpdate e USERS_TABLE userId
                                            (approvalUpdate e password faceId key) w2 of
                                       Inl err \<Rightarrow> (serverError err, w2)
                                     | Inr w3 \<Rightarrow>
                                        (json 200 [(''success'', B True),
                                                   (''message'', S ''User approved and face indexed''),
                                                   (''faceId'', faceId)], w3))))))
                | _ \<Rightarrow> (serverError ''user.faceImage.replace is not a function'', w)))))"

section \<open>Authentication\<close>

text \<open>\<^verbatim>\<open>POST /auth/login\<close>.\<close>

definition auth_login ::
  "env \<Rightarrow> string \<Rightarrow> string \<Rightarrow> string \<Rightarrow> world \<Rightarrow> response \<times> world" where
  "auth_login e userId password role w =
     (if missing userId \<or> missing password \<or> missing role
      then (json 400 [(''success'', B False), (''error'', S ''Missing fields'')], w)
      else
        (case ddbGet e USERS_TABLE (Some (S userId)) w of
           Inl err \<Rightarrow> (serverError err, w)
         | Inr None \<Rightarrow> (json 404 [(''success'', B False), (''error'', S ''User not found'')], w)
         | Inr (Some user) \<Rightarrow>
            (if \<not> truthy (attr user ''approved'')
             then (json 401 [(''success'', B False), (''error'', S ''User not approved'')], w)
             else if attr user ''password'' \<noteq> Some (S password)
             then (json 401 [(''success'', B False), (''error'', S ''Incorrect password'')], w)
             else (json 200 [(''success'', B True), (''message'', S ''Login successful''),
                             (''userId'', S userId), (''role'', S role)], w))))"

text \<open>\<^verbatim>\<open>POST /auth/verify-face\<close>.\<close>

definition findMatch :: "string \<Rightarrow> face_match list option \<Rightarrow> face_match option" where
  "findMatch userId faceMatches =
     (case faceMatches of
        None \<Rightarrow> None
      | Some ms \<Rightarrow> find (\<lambda>f. ExternalImageId (Face f) = Some userId) ms)"

definition auth_verify_face ::
  "env \<Rightarrow> string \<Rightarrow> string \<Rightarrow> world \<Rightarrow> response \<times> world" where
  "auth_verify_face e userId imageBase64 w =
     (if missing userId \<or> missing imageBase64
      then (json 400 [(''success'', B False), (''error'', S ''Missing fields'')], w)
      else
        (case ddbGet e USERS_TABLE (Some (S userId)) w of
           Inl err \<Rightarrow> (serverError err, w)
         | Inr None \<Rightarrow> (json 404 [(''success'', B False), (''error'', S ''User not found'')], w)
         | Inr (Some user) \<Rightarrow>
            (case searchFacesByImage e (REKOG_COLLECTION e) (imageBufferOf imageBase64) 1
                    (FACE_MATCH_THRESHOLD e) of
               SearchError nm msg \<Rightarrow> (serverError msg, w)
             | SearchResponse faceMatches \<Rightarrow>
                (case findMatch userId faceMatches of
                   Some matched \<Rightarrow>
                     (json 200 [(''success'', B True), (''message'', S ''Face matched''),
                                (''similarity'', N (Similarity matched))], w)
                 | None \<Rightarrow>
                     (json 200 [(''success'', B False), (''message'', S ''Face not matched'')], w)))))"

section \<open>Attendance\<close>

text \<open>
  \<^verbatim>\<open>now > session.expireAt\<close> compares numbers: the attribute is converted as the language
  converts it (\<^verbatim>\<open>undefined\<close> and unreadable strings to NaN, which is greater than
  nothing and smaller than nothing). Values are integers here, so a string converts when
  it is a decimal integer, possibly signed and surrounded by blanks; sessions are written
  with a number in this attribute.
\<close>

definition isBlank :: "char \<Rightarrow> bool" where
  "isBlank c = (c \<in> set [CHR '' '', CHR 0x09, CHR 0x0A, CHR 0x0B, CHR 0x0C, CHR 0x0D])"

definition trim :: "string \<Rightarrow> string" where
  "trim s = rev (dropWhile isBlank (rev (dropWhile isBlank s)))"

definition digitsValue :: "string \<Rightarrow> nat" where
  "digitsValue ds = fold (\<lambda>c acc. 10 * acc + (of_char c - 48)) ds 0"

definition unsignedToNumber :: "string \<Rightarrow> nat option" where
  "unsignedToNumber ds = (if ds \<noteq> [] \<and> list_all isDigit ds then Some (digitsValue ds) else None)"

definition stringToNumber :: "string \<Rightarrow> int option" where
  "stringToNumber s =
     (case trim s of
        [] \<Rightarrow> Some 0
      | c # cs \<Rightarrow>
          (if c = CHR ''-'' then map_option (\<lambda>n. - int n) (unsignedToNumber cs)
           else if c = CHR ''+'' then map_option int (unsignedToNumber cs)
           else map_option int (unsignedToNumber (c # cs))))"

fun toNumber :: "val option \<Rightarrow> int option" where
  "toNumber None = None"
| "toNumber (Some Null) = Some 0"
| "toNumber (Some (B b)) = Some (if b then 1 else 0)"
| "toNumber (Some (N n)) = Some n"
| "toNumber (Some (S s)) = stringToNumber s"

definition jsGreater :: "nat \<Rightarrow> val option \<Rightarrow> bool" where
  "jsGreater x v = (case toNumber v of None \<Rightarrow> False | Some y \<Rightarrow> int x > y)"

text \<open>\<^verbatim>\<open>new Date().toISOString().split('T')[0]\<close>.\<close>

definition isoDate :: "string \<Rightarrow> string" where
  "isoDate t = takeWhile (\<lambda>c. c \<noteq> CHR ''T'') t"

text \<open>The template \<^verbatim>\<open>`${userId}-${sessionId}`\<close> that names an attendance record.\<close>

definition attendanceIdOf :: "string \<Rightarrow> string \<Rightarrow> string" where
  "attendanceIdOf userId sessionId = userId @ ''-'' @ sessionId"

text \<open>\<^verbatim>\<open>POST /attendance/mark\<close>, and the item it puts.\<close>

definition faceRecord :: "env \<Rightarrow> string \<Rightarrow> string \<Rightarrow> item" where
  "faceRecord e userId sessionId =
     (let today = isoDate (dateIso e)
      in [(''attendanceId'', S (attendanceIdOf userId sessionId)),
          (''userId'', S userId), (''sessionId'', S sessionId),
          (''timestamp'', S (dateIso e)), (''date'', S today),
          (''status'', S ''Present'')])"

definition attendance_mark :: "env \<Rightarrow> string \<Rightarrow> string \<Rightarrow> world \<Rightarrow> response \<times> world" where
  "attendance_mark e userId sessionId w =
     (if missing userId \<or> missing sessionId
      then (json 400 [(''success'', B False), (''error'', S ''Missing fields'')], w)
      else
        (case ddbGet e SESSIONS_TABLE (Some (S sessionId)) w of
           Inl err \<Rightarrow> (serverError err, w)
         | Inr None \<Rightarrow> (json 200 [(''success'', B False), (''error'', S ''Invalid session'')], w)
         | Inr (Some session) \<Rightarrow>
            (let now = dateNow e div 1000
             in if jsGreater now (attr session ''expireAt'')
                then (json 200 [(''success'', B False), (''error'', S ''Session expired'')], w)
                else
                  (case ddbPut e ATTENDANCE_TABLE (faceRecord e userId sessionId) w of
                     Inl err \<Rightarrow> (serverError err, w)
                   | Inr w' \<Rightarrow>
                       (json 200 [(''success'', B True), (''message'', S ''Attendance marked'')],
                        w')))))"

text \<open>\<^verbatim>\<open>POST /student/scan-qr\<close>, and the item it puts.\<close>

definition qrRecord :: "env \<Rightarrow> string \<Rightarrow> string \<Rightarrow> string \<Rightarrow> item" where
  "qrRecord e userId qrData cameraType =
     (let today = isoDate (dateIso e);
          attendanceId = attendanceIdOf userId qrData
      in [(''attendanceId'', S attendanceId),
          (''userId'', S userId), (''sessionId'', S qrData),
          (''timestamp'', S (dateIso e)), (''date'', S today),
          (''status'', S ''Present''), (''method'', S ''qr_scan''),
          (''cameraUsed'', S (orElse cameraType ''unknown''))])"

definition student_scan_qr ::
  "env \<Rightarrow> string \<Rightarrow> string \<Rightarrow> string \<Rightarrow> world \<Rightarrow> response \<times> world" where
  "student_scan_qr e userId qrData cameraType w =
     (if missing userId \<or> missing qrData
      then (json 400 [(''success'', B False), (''error'', S ''Missing fields'')], w)
      else
        (case ddbGet e SESSIONS_TABLE (Some (S qrData)) w of
           Inl err \<Rightarrow> (serverError err, w)
         | Inr None \<Rightarrow> (json 200 [(''success'', B False), (''error'', S ''Invalid QR code'')], w)
         | Inr (Some session) \<Rightarrow>
            (let now = dateNow e div 1000
             in if jsGreater now (attr session ''expireAt'')
                then (json 200 [(''success'', B False), (''error'', S ''QR code has expired'')], w)
                else
                  (case ddbPut e ATTENDANCE_TABLE (qrRecord e userId qrData cameraType) w of
                     Inl err \<Rightarrow> (serverError err, w)
                   | Inr w' \<Rightarrow>
                       (json 200
                          ([(''success'', B True),
                            (''message'', S ''Attendance marked successfully via QR scan'')]
                           @ (case attr session ''classId'' of
                                None \<Rightarrow> []
                              | Some c \<Rightarrow> [(''classId'', c)])),
                        w')))))"

text \<open>
  \<^verbatim>\<open>POST /teacher/submit-attendance\<close>. The handler starts one write per listed student and
  waits for all of them: every write that the store accepts happens, and the request fails
  with the message of a rejected write when there is one. \<open>presentStudents\<close> is \<open>None\<close>
  when the field is not an array.
\<close>

definition manualRecord :: "env \<Rightarrow> string \<Rightarrow> string \<Rightarrow> string \<Rightarrow> item" where
  "manualRecord e teacherId finalSessionId studentId =
     [(''attendanceId'', S (attendanceIdOf studentId finalSessionId)),
      (''userId'', S studentId), (''sessionId'', S finalSessionId),
      (''timestamp'', S (dateIso e)), (''date'', S (isoDate (dateIso e))),
      (''status'', S ''Present''), (''markedBy'', S teacherId), (''method'', S ''manual'')]"

definition finalSessionIdOf :: "env \<Rightarrow> string \<Rightarrow> string \<Rightarrow> string" where
  "finalSessionIdOf e classId sessionId =
     orElse sessionId (''MANUAL-'' @ classId @ ''-'' @ natToString (dateNow e))"

fun putAll :: "env \<Rightarrow> item list \<Rightarrow> world \<Rightarrow> string list \<times> world" where
  "putAll e [] w = ([], w)"
| "putAll e (it # its) w =
     (case ddbPut e ATTENDANCE_TABLE it w of
        Inl err \<Rightarrow> (case putAll e its w of (errs, w') \<Rightarrow> (err # errs, w'))
      | Inr w1 \<Rightarrow> putAll e its w1)"

definition teacher_submit_attendance ::
  "env \<Rightarrow> string \<Rightarrow> string \<Rightarrow> string list option \<Rightarrow> string \<Rightarrow> world \<Rightarrow> response \<times> world" where
  "teacher_submit_attendance e teacherId classId presentStudents sessionId w =
     (case presentStudents of
        None \<Rightarrow> (json 400 [(''success'', B False), (''error'', S ''Missing required fields'')], w)
      | Some students \<Rightarrow>
         (if missing teacherId \<or> missing classId
          then (json 400 [(''success'', B False), (''error'', S ''Missing required fields'')], w)
          else
            (let finalSessionId = finalSessionIdOf e classId sessionId
             in (case putAll e (map (manualRecord e teacherId finalSessionId) students) w of
                   (err # errs, w') \<Rightarrow> (serverError err, w')
                 | ([], w') \<Rightarrow>
                     (json 200
                        [(''success'', B True),
                         (''message'', S (''Attendance marked for ''
                                          @ natToString (length students) @ '' students'')),
                         (''presentCount'', N (int (length students))),
                         (''sessionId'', S finalSessionId)],
                      w')))))"

text \<open>
  The three marking routes as one request type, the (user, session) pairs a request marks,
  and the property of the attendance table that every row is stored under the identifier
  derived from its own user id and session id.
\<close>

datatype marking =
    FaceMark string string
  | QrScan string string string
  | ManualSubmit string string "string list option" string

fun mark :: "env \<Rightarrow> marking \<Rightarrow> world \<Rightarrow> response \<times> world" where
  "mark e (FaceMark userId sessionId) w = attendance_mark e userId sessionId w"
| "mark e (QrScan userId qrData cameraType) w = student_scan_qr e userId qrData cameraType w"
| "mark e (ManualSubmit teacherId classId presentStudents sessionId) w =
     teacher_submit_attendance e teacherId classId presentStudents sessionId w"

fun targets :: "env \<Rightarrow> marking \<Rightarrow> (string \<times> string) list" where
  "targets e (FaceMark userId sessionId) = [(userId, sessionId)]"
| "targets e (QrScan userId qrData cameraType) = [(userId, qrData)]"
| "targets e (ManualSubmit teacherId classId presentStudents sessionId) =
     (case presentStudents of
        None \<Rightarrow> []
      | Some students \<Rightarrow> map (\<lambda>st. (st, finalSessionIdOf e classId sessionId)) students)"

definition pairKey :: "item \<Rightarrow> string option" where
  "pairKey it =
     (case (attr it ''userId'', attr it ''sessionId'') of
        (Some (S u), Some (S s)) \<Rightarrow> Some (attendanceIdOf u s)
      | _ \<Rightarrow> None)"

definition keyedByPair :: "(string \<rightharpoonup> item) \<Rightarrow> bool" where
  "keyedByPair table =
     (\<forall>k it. table k = Some it \<longrightarrow> pairKey it = Some k \<and> attr it ''attendanceId'' = Some (S k))"

section \<open>Teacher assignment\<close>

text \<open>
  \<^verbatim>\<open>POST /admin/assign-teacher\<close>. The name written is \<^verbatim>\<open>teacherName || teacher.name\<close>; the
  store client refuses an update whose value is \<^verbatim>\<open>undefined\<close>.
\<close>

definition admin_assign_teacher ::
  "env \<Rightarrow> string \<Rightarrow> string \<Rightarrow> string \<Rightarrow> world \<Rightarrow> response \<times> world" where
  "admin_assign_teacher e timetableId teacherId teacherName w =
     (if missing timetableId \<or> missing teacherId
      then (json 400 [(''success'', B False),
                      (''error'', S ''Timetable ID and Teacher ID are required'')], w)
      else
        (case ddbGet e USERS_TABLE (Some (S teacherId)) w of
           Inl err \<Rightarrow> (serverError err, w)
         | Inr None \<Rightarrow>
             (json 404 [(''success'', B False), (''error'', S ''Teacher not found or invalid role'')], w)
         | Inr (Some teacher) \<Rightarrow>
            (if attr teacher ''role'' \<noteq> Some (S ''teacher'')
             then (json 404 [(''success'', B False),
                             (''error'', S ''Teacher not found or invalid role'')], w)
             else
               (case (if missing teacherName then attr teacher ''name'' else Some (S teacherName)) of
                  None \<Rightarrow> (serverError ''Pass options.removeUndefinedValues=true to remove undefined values from map/array/set.'', w)
                | Some tname \<Rightarrow>
                   (case ddbUpdate e TIMETABLE_TABLE timetableId
                           [(''teacherId'', S teacherId), (''teacherName'', tname),
                            (''assignedAt'', S (dateIso e))] w of
                      Inl err \<Rightarrow> (serverError err, w)
                    | Inr w' \<Rightarrow>
                        (json 200 [(''success'', B True),
                                   (''message'', S (''Teacher '' @ toStr tname
                                                    @ '' assigned to class successfully''))],
                         w'))))))"

section \<open>Sample states\<close>

text \<open>
  A clock reading, a store with one approved teacher, one pending student and two sessions
  (one still open at that clock reading, one expired), used to run the handlers on
  concrete requests.
\<close>

definition demoEnv :: env where
  "demoEnv =
     \<lparr>dateNow = 1700000000123, dateIso = ''2023-11-14T22:13:20.123Z'', random100 = 7,
      REKOG_COLLECTION = ''attendance-users'', FACE_MATCH_THRESHOLD = 75,
      rejects = (\<lambda>c. None),
      searchFacesByImage = (\<lambda>c i m t. SearchResponse (Some [])),
      detectedFaces = (\<lambda>c i x. [''face-0001''])\<rparr>"

definition demoImage :: string where
  "demoImage = ''data:image/png;base64,iVBORw0KGgo=''"

definition demoUsers :: "string \<rightharpoonup> item" where
  "demoUsers =
     [''TEACH001'' \<mapsto> [(''userId'', S ''TEACH001''), (''name'', S ''Dr. Sarah Johnson''),
                        (''password'', S ''password123''), (''role'', S ''teacher''),
                        (''approved'', B True)],
      ''10000000042'' \<mapsto> [(''userId'', S ''10000000042''), (''name'', S ''Test User 1''),
                            (''email'', S ''test1@example.com''), (''role'', S ''student''),
                            (''approved'', B False), (''faceImage'', S demoImage)]]"

definition demoSessions :: "string \<rightharpoonup> item" where
  "demoSessions =
     [''CLASS-CS101-1699999400000'' \<mapsto>
        [(''sessionId'', S ''CLASS-CS101-1699999400000''), (''classId'', S ''CS101''),
         (''teacherId'', S ''TEACH001''), (''expireAt'', N 1700000000)],
      ''CLASS-CS101-1699990000000'' \<mapsto>
        [(''sessionId'', S ''CLASS-CS101-1699990000000''), (''classId'', S ''CS101''),
         (''teacherId'', S ''TEACH001''), (''expireAt'', N 1699990600)]]"

definition demoWorld :: world where
  "demoWorld =
     \<lparr>ddb = (\<lambda>t. Map.empty)(USERS_TABLE := demoUsers, SESSIONS_TABLE := demoSessions),
      bucket = Map.empty, collection = []\<rparr>"

definition matchOf :: "string \<Rightarrow> face_match" where
  "matchOf ext = \<lparr>Similarity = 99, Face = \<lparr>FaceId = ''face-0001'', ExternalImageId = Some ext\<rparr>\<rparr>"

definition matchingEnv :: "string \<Rightarrow> env" where
  "matchingEnv ext = demoEnv\<lparr>searchFacesByImage := (\<lambda>c i m t. SearchResponse (Some [matchOf ext]))\<rparr>"

definition laterEnv :: env where
  "laterEnv = demoEnv\<lparr>dateNow := 1700000000999, dateIso := ''2023-11-14T22:13:20.999Z''\<rparr>"

definition demoStudent :: string where "demoStudent = ''10000000042''"

definition openSession :: string where "openSession = ''CLASS-CS101-1699999400000''"

definition closedSession :: string where "closedSession = ''CLASS-CS101-1699990000000''"

definition afterScan :: world where
  "afterScan = snd (mark demoEnv (QrScan demoStudent openSession ''back'') demoWorld)"

definition afterRemark :: world where
  "afterRemark = snd (mark laterEnv (FaceMark demoStudent openSession) afterScan)"

section \<open>Properties of the conversions\<close>

lemma digitChar_isDigit: "isDigit (digitChar d)"
  unfolding isDigit_def digitChar_def by (rule nth_mem) simp

lemma natToString_digits: "list_all isDigit (natToString n)"
proof (induction n rule: natToString.induct)
  case (1 n)
  show ?case
  proof (cases "n < 10")
    case True
    then show ?thesis by (simp add: natToString.simps [of n] digitChar_isDigit)
  next
    case False
    with 1 show ?thesis by (simp add: natToString.simps [of n] digitChar_isDigit)
  qed
qed

lemma natToString_nonempty: "0 < length (natToString n)"
  by (simp add: natToString.simps [of n])

lemma natToString_length_ge: "10 ^ k \<le> n \<Longrightarrow> k < length (natToString n)"
proof (induction k arbitrary: n)
  case 0
  show ?case by (rule natToString_nonempty)
next
  case (Suc k)
  have "(1::nat) \<le> 10 ^ k" by simp
  then have "(10::nat) \<le> 10 * 10 ^ k" by linarith
  moreover from Suc.prems have "10 * 10 ^ k \<le> n" by simp
  ultimately have "10 \<le> n" by (rule order_trans)
  then have big: "\<not> n < 10" by simp
  from Suc.prems have "10 ^ k \<le> n div 10" by (simp add: less_eq_div_iff_mult_less_eq)
  then have "k < length (natToString (n div 10))" by (rule Suc.IH)
  with big show ?case by (simp add: natToString.simps [of n])
qed

lemma natToString_length_lt100: "n < 100 \<Longrightarrow> length (natToString n) \<le> 2"
proof -
  assume "n < 100"
  then have "n div 10 < 10" by simp
  then have "length (natToString (n div 10)) = 1" by (simp add: natToString.simps [of "n div 10"])
  then show ?thesis by (simp add: natToString.simps [of n])
qed

lemma padStart_two: "n < 100 \<Longrightarrow> length (padStart 2 c (natToString n)) = 2"
  using natToString_length_lt100 [of n] natToString_nonempty [of n]
  by (simp add: padStart_def)

lemma padStart_digits: "list_all isDigit (padStart k (CHR ''0'') (natToString n))"
proof -
  have "list_all isDigit (replicate (k - length (natToString n)) (CHR ''0''))"
    by (simp add: list_all_iff isDigit_def)
  then show ?thesis by (simp add: padStart_def natToString_digits)
qed

lemma sliceLast_length: "k \<le> length s \<Longrightarrow> length (sliceLast k s) = k"
  by (simp add: sliceLast_def)

lemma sliceLast_digits: "list_all isDigit s \<Longrightarrow> list_all isDigit (sliceLast k s)"
  by (auto simp: sliceLast_def list_all_iff dest: in_set_dropD)

text \<open>Reading a decimal string back gives the number that was printed.\<close>

lemma digit_table: "\<forall>d\<in>set [0..<10]. of_char (''0123456789'' ! d) = (48::nat) + d"
  by (simp add: upt_rec)

lemma of_char_digit: "d < 10 \<Longrightarrow> of_char (''0123456789'' ! d) = (48::nat) + d"
  using digit_table by (simp del: upt_Suc)

lemma digitChar_value: "of_char (digitChar d) - (48::nat) = d mod 10"
  by (simp add: digitChar_def of_char_digit)

lemma isDigit_value: "isDigit c \<Longrightarrow> of_char c - (48::nat) < 10"
  by (auto simp: isDigit_def)

lemma digitsValue_fold:
  "fold (\<lambda>c acc. 10 * acc + (of_char c - 48)) ds (a::nat) = a * 10 ^ length ds + digitsValue ds"
proof (induction ds arbitrary: a)
  case Nil
  show ?case by (simp add: digitsValue_def)
next
  case (Cons c ds)
  let ?v = "of_char c - (48::nat)"
  have left: "fold (\<lambda>c acc. 10 * acc + (of_char c - 48)) (c # ds) a
          = (10 * a + ?v) * 10 ^ length ds + digitsValue ds"
    using Cons.IH [of "10 * a + ?v"] by simp
  have "digitsValue (c # ds) = fold (\<lambda>c acc. 10 * acc + (of_char c - 48)) ds ?v"
    unfolding digitsValue_def by simp
  then have right: "digitsValue (c # ds) = ?v * 10 ^ length ds + digitsValue ds"
    using Cons.IH [of ?v] by simp
  show ?case unfolding left right by (simp add: algebra_simps)
qed

lemma digitsValue_append:
  "digitsValue (xs @ ys) = digitsValue xs * 10 ^ length ys + digitsValue ys"
proof -
  have "digitsValue (xs @ ys)
          = fold (\<lambda>c acc. 10 * acc + (of_char c - 48)) ys (digitsValue xs)"
    unfolding digitsValue_def by simp
  then show ?thesis by (simp only: digitsValue_fold)
qed

lemma digitsValue_single: "digitsValue [c] = of_char c - 48"
  unfolding digitsValue_def by simp

lemma digitsValue_natToString: "digitsValue (natToString n) = n"
proof (induction n rule: natToString.induct)
  case (1 n)
  show ?case
  proof (cases "n < 10")
    case True
    then show ?thesis
      by (simp add: natToString.simps [of n] digitsValue_single digitChar_value)
  next
    case False
    with 1 show ?thesis
      by (simp add: natToString.simps [of n] digitsValue_append digitsValue_single
          digitChar_value)
  qed
qed

lemma digitsValue_bound: "list_all isDigit ds \<Longrightarrow> digitsValue ds < 10 ^ length ds"
proof (induction ds rule: rev_induct)
  case Nil
  show ?case by (simp add: digitsValue_def)
next
  case (snoc c ds)
  then have "digitsValue ds < 10 ^ length ds" and "of_char c - (48::nat) < 10"
    by (simp_all add: isDigit_value)
  then have "digitsValue ds * 10 + (of_char c - 48) < 10 ^ length ds * 10"
    by linarith
  moreover have "digitsValue (ds @ [c]) = digitsValue ds * 10 + (of_char c - 48)"
    by (simp add: digitsValue_append digitsValue_single)
  ultimately show ?case by simp
qed

lemma sliceLast_value:
  assumes "k \<le> length (natToString n)"
  shows "digitsValue (sliceLast k (natToString n)) = n mod 10 ^ k"
proof -
  let ?s = "natToString n"
  let ?first = "take (length ?s - k) ?s"
  let ?last = "sliceLast k ?s"
  have split: "?s = ?first @ ?last" by (simp add: sliceLast_def)
  have len: "length ?last = k" using assms by (rule sliceLast_length)
  have "list_all isDigit ?last" by (simp add: sliceLast_digits natToString_digits)
  then have small: "digitsValue ?last < 10 ^ k" using digitsValue_bound len by fastforce
  have "n = digitsValue (?first @ ?last)" using split digitsValue_natToString by metis
  then have "n = digitsValue ?first * 10 ^ k + digitsValue ?last"
    by (simp only: digitsValue_append len)
  then have "n mod 10 ^ k = digitsValue ?last mod 10 ^ k"
    by (metis mod_mult_self3)
  with small show ?thesis by simp
qed

lemma padStart_value: "digitsValue (padStart k (CHR ''0'') (natToString n)) = n"
proof -
  have "digitsValue (replicate m (CHR ''0'')) = 0" for m
  proof (induction m)
    case 0
    show ?case by (simp add: digitsValue_def)
  next
    case (Suc m)
    have "digitsValue (replicate (Suc m) (CHR ''0''))
            = digitsValue ([CHR ''0''] @ replicate m (CHR ''0''))" by simp
    also have "\<dots> = 0" unfolding digitsValue_append using Suc by (simp add: digitsValue_single)
    finally show ?case .
  qed
  then show ?thesis
    by (simp add: padStart_def digitsValue_append digitsValue_natToString)
qed

section \<open>Reading the sample environment\<close>

lemma demoEnv_sel:
  "dateNow demoEnv = 1700000000123"
  "dateIso demoEnv = ''2023-11-14T22:13:20.123Z''"
  "random100 demoEnv = 7"
  "REKOG_COLLECTION demoEnv = ''attendance-users''"
  "FACE_MATCH_THRESHOLD demoEnv = 75"
  "rejects demoEnv c = None"
  "searchFacesByImage demoEnv cid img mx th = SearchResponse (Some [])"
  "detectedFaces demoEnv cid img ext = [''face-0001'']"
  by (simp_all add: demoEnv_def)

section \<open>Registration rejects a face that is already indexed\<close>

lemma duplicateCheck_match:
  assumes "searchFacesByImage e (REKOG_COLLECTION e) b 1 80 = SearchResponse (Some (match # rest))"
  shows "\<exists>msg. duplicateCheck e b w = Some (duplicateFace msg)"
proof (cases "ddbGet e USERS_TABLE (map_option S (ExternalImageId (Face match))) w")
  case (Inl err)
  with assms show ?thesis by (simp add: duplicateCheck_def) blast
next
  case (Inr existingUser)
  with assms show ?thesis by (simp add: duplicateCheck_def Let_def) blast
qed

text \<open>
  Claim C1. A register request with all four fields whose face search (threshold 80)
  returns at least one match is answered with status 409, \<open>success = false\<close> and code
  \<open>DUPLICATE_FACE\<close>, whatever the lookup of the matched user gives, and the stores are
  left as they were: no user record is written.
\<close>

theorem register_duplicate_face:
  assumes "\<not> missing name" and "\<not> missing email" and "\<not> missing role"
    and "\<not> missing imageBase64"
    and "searchFacesByImage e (REKOG_COLLECTION e) (imageBufferOf imageBase64) 1 80
           = SearchResponse (Some (match # rest))"
  shows "status (fst (auth_register e name email role imageBase64 w)) = 409
       \<and> attr (body (fst (auth_register e name email role imageBase64 w))) ''success''
           = Some (B False)
       \<and> attr (body (fst (auth_register e name email role imageBase64 w))) ''code''
           = Some (S ''DUPLICATE_FACE'')
       \<and> snd (auth_register e name email role imageBase64 w) = w"
proof -
  from assms(5) obtain msg
    where "duplicateCheck e (imageBufferOf imageBase64) w = Some (duplicateFace msg)"
    using duplicateCheck_match by blast
  with assms(1-4) show ?thesis
    by (simp add: auth_register_def duplicateFace_def json_def attr_def)
qed

theorem register_duplicate_face_witness:
  "status (fst (auth_register (matchingEnv ''TEACH001'') ''Test User 2'' ''test2@example.com''
       ''teacher'' demoImage demoWorld)) = 409
   \<and> attr (body (fst (auth_register (matchingEnv ''TEACH001'') ''Test User 2''
       ''test2@example.com'' ''teacher'' demoImage demoWorld))) ''code''
       = Some (S ''DUPLICATE_FACE'')
   \<and> snd (auth_register (matchingEnv ''TEACH001'') ''Test User 2'' ''test2@example.com''
       ''teacher'' demoImage demoWorld) = demoWorld"
  using register_duplicate_face [of "''Test User 2''" "''test2@example.com''" "''teacher''"
      demoImage "matchingEnv ''TEACH001''" "matchOf ''TEACH001''" "[]" demoWorld]
  by (simp add: missing_def matchingEnv_def demoImage_def)

section \<open>The identifier of a new registration\<close>

lemma register_success_cases:
  assumes "attr (body (fst (auth_register e name email role imageBase64 w))) ''success'' = Some (B True)"
  shows "auth_register e name email role imageBase64 w =
           (json 200 [(''success'', B True), (''message'', S ''Registration submitted''),
                      (''userId'', S (tempId e role))],
            w\<lparr>ddb := (ddb w)(USERS_TABLE := (ddb w USERS_TABLE)(tempId e role \<mapsto>
                 [(''userId'', S (tempId e role)), (''name'', S name), (''email'', S email),
                  (''role'', S role), (''approved'', B False), (''faceImage'', S imageBase64)]))\<rparr>)"
proof (cases "missing name \<or> missing email \<or> missing role \<or> missing imageBase64")
  case True
  with assms show ?thesis by (simp add: auth_register_def json_def attr_def)
next
  case False
  note present = this
  show ?thesis
  proof (cases "duplicateCheck e (imageBufferOf imageBase64) w")
    case (Some r)
    then have "\<exists>msg. r = duplicateFace msg"
      by (auto simp: duplicateCheck_def Let_def
          split: search_result.splits option.splits list.splits sum.splits)
    with Some present assms show ?thesis
      by (auto simp: auth_register_def duplicateFace_def json_def attr_def)
  next
    case None
    show ?thesis
    proof (cases "ddbPut e USERS_TABLE
                 [(''userId'', S (tempId e role)), (''name'', S name), (''email'', S email),
                  (''role'', S role), (''approved'', B False), (''faceImage'', S imageBase64)] w")
      case (Inl err)
      with None present assms show ?thesis
        by (simp add: auth_register_def serverError_def json_def attr_def Let_def)
    next
      case (Inr w')
      then have "w' = w\<lparr>ddb := (ddb w)(USERS_TABLE := (ddb w USERS_TABLE)(tempId e role \<mapsto>
                 [(''userId'', S (tempId e role)), (''name'', S name), (''email'', S email),
                  (''role'', S role), (''approved'', B False), (''faceImage'', S imageBase64)]))\<rparr>"
        by (auto simp: ddbPut_def attr_def split: if_splits option.splits)
      with Inr None present show ?thesis
        by (simp add: auth_register_def Let_def)
    qed
  qed
qed

lemma tempId_demo: "tempId demoEnv ''student'' = ''10000012307''"
  by (simp add: tempId_def demoEnv_def rolePrefix_def sliceLast_def padStart_def
      natToString.simps digitChar_def)

text \<open>
  Claim C7. A registration that succeeds answers with (and stores the user under) the
  identifier made of the role digit (1 for \<open>student\<close>, 2 for any other role), the last
  eight characters of the decimal millisecond clock and the random number below 100 padded
  to two digits. With a clock of at least eight digits (any time after the first three
  hours of 1970) the clock part is eight digits that read as the clock modulo \<open>10\<^sup>8\<close>, the
  random part is two digits that read as the random number, and the whole is eleven decimal
  digits: a student's identifier is a 1 followed by ten digits, any other identifier
  starts with 2.
\<close>

theorem register_identifier:
  assumes "attr (body (fst (auth_register e name email role imageBase64 w))) ''success''
             = Some (B True)"
    and "10 ^ 7 \<le> dateNow e" and "random100 e < 100"
  shows "attr (body (fst (auth_register e name email role imageBase64 w))) ''userId''
           = Some (S (tempId e role))
       \<and> ddb (snd (auth_register e name email role imageBase64 w)) USERS_TABLE (tempId e role)
           \<noteq> None
       \<and> tempId e role = (if role = ''student'' then ''1'' else ''2'')
             @ sliceLast 8 (natToString (dateNow e))
             @ padStart 2 (CHR ''0'') (natToString (random100 e))
       \<and> length (sliceLast 8 (natToString (dateNow e))) = 8
       \<and> digitsValue (sliceLast 8 (natToString (dateNow e))) = dateNow e mod 10 ^ 8
       \<and> length (padStart 2 (CHR ''0'') (natToString (random100 e))) = 2
       \<and> digitsValue (padStart 2 (CHR ''0'') (natToString (random100 e))) = random100 e
       \<and> length (tempId e role) = 11
       \<and> list_all isDigit (tempId e role)
       \<and> (role = ''student'' \<longrightarrow>
            (\<exists>ds. tempId e role = CHR ''1'' # ds \<and> length ds = 10 \<and> list_all isDigit ds))
       \<and> (role \<noteq> ''student'' \<longrightarrow> (\<exists>ds. tempId e role = CHR ''2'' # ds))"
proof -
  let ?stamp = "sliceLast 8 (natToString (dateNow e))"
  let ?suffix = "padStart 2 (CHR ''0'') (natToString (random100 e))"
  have long: "7 < length (natToString (dateNow e))"
    using assms(2) by (rule natToString_length_ge)
  then have len_stamp: "length ?stamp = 8" by (simp add: sliceLast_length)
  from long have val_stamp: "digitsValue ?stamp = dateNow e mod 10 ^ 8"
    by (simp add: sliceLast_value)
  have val_suffix: "digitsValue ?suffix = random100 e" by (rule padStart_value)
  have len_suffix: "length ?suffix = 2" using assms(3) by (rule padStart_two)
  have dig_stamp: "list_all isDigit ?stamp" by (simp add: sliceLast_digits natToString_digits)
  have dig_suffix: "list_all isDigit ?suffix" by (rule padStart_digits)
  have shape: "tempId e role = (if role = ''student'' then ''1'' else ''2'') @ ?stamp @ ?suffix"
    by (simp add: tempId_def rolePrefix_def)
  have len: "length (tempId e role) = 11"
    using len_stamp len_suffix by (simp add: shape)
  have dig: "list_all isDigit (tempId e role)"
    using dig_stamp dig_suffix by (simp add: shape isDigit_def)
  have student: "\<exists>ds. tempId e role = CHR ''1'' # ds \<and> length ds = 10 \<and> list_all isDigit ds"
    if "role = ''student''"
  proof -
    from that shape have "tempId e role = CHR ''1'' # (?stamp @ ?suffix)" by simp
    moreover have "length (?stamp @ ?suffix) = 10" using len_stamp len_suffix by simp
    moreover have "list_all isDigit (?stamp @ ?suffix)" using dig_stamp dig_suffix by simp
    ultimately show ?thesis by blast
  qed
  have other: "\<exists>ds. tempId e role = CHR ''2'' # ds" if "role \<noteq> ''student''"
    using that shape by simp
  note run = register_success_cases [OF assms(1)]
  have resp: "attr (body (fst (auth_register e name email role imageBase64 w))) ''userId''
                = Some (S (tempId e role))"
    by (simp add: run json_def attr_def)
  have stored: "ddb (snd (auth_register e name email role imageBase64 w)) USERS_TABLE
                  (tempId e role) \<noteq> None"
    by (simp add: run)
  from resp stored shape len_stamp val_stamp len_suffix val_suffix len dig student other
  show ?thesis by blast
qed

theorem register_identifier_witness:
  "attr (body (fst (auth_register demoEnv ''Test User 1'' ''test1@example.com'' ''student''
                     demoImage demoWorld))) ''userId'' = Some (S ''10000012307'')
   \<and> length (tempId demoEnv ''student'') = 11"
proof -
  have run: "duplicateCheck demoEnv (imageBufferOf demoImage) demoWorld = None"
    by (simp add: duplicateCheck_def demoEnv_sel)
  have ok: "attr (body (fst (auth_register demoEnv ''Test User 1'' ''test1@example.com''
                     ''student'' demoImage demoWorld))) ''success'' = Some (B True)"
  proof -
    have "\<not> missing demoImage" by (simp add: missing_def demoImage_def)
    then show ?thesis
      by (simp add: auth_register_def run missing_def Let_def ddbPut_def attr_def
          tempId_demo json_def demoEnv_sel)
  qed
  have clock: "10 ^ 7 \<le> dateNow demoEnv" and rnd: "random100 demoEnv < 100"
    by (simp_all add: demoEnv_sel)
  from register_identifier [OF ok clock rnd] show ?thesis
    by (simp add: tempId_demo)
qed

section \<open>Marking attendance\<close>

lemma ddbGet_present:
  assumes "\<not> missing k" and "rejects e (GetCommand t k) = None"
  shows "ddbGet e t (Some (S k)) w = Inr (ddb w t k)"
  using assms by (simp add: ddbGet_def missing_def)

text \<open>
  Claim C3. When the session of a marking request (by face or by QR scan) exists and the
  clock in whole seconds is past its \<open>expireAt\<close>, the answer is \<open>success = false\<close> with
  the expiry message of the route, and the stores are unchanged: nothing is written to the
  attendance table.
\<close>

theorem expired_session_not_marked:
  assumes "\<not> missing userId" and "\<not> missing sessionId"
    and "rejects e (GetCommand SESSIONS_TABLE sessionId) = None"
    and "ddb w SESSIONS_TABLE sessionId = Some session"
    and "attr session ''expireAt'' = Some (N expireAt)"
    and "expireAt < int (dateNow e div 1000)"
  shows "attendance_mark e userId sessionId w
           = (json 200 [(''success'', B False), (''error'', S ''Session expired'')], w)
       \<and> student_scan_qr e userId sessionId cameraType w
           = (json 200 [(''success'', B False), (''error'', S ''QR code has expired'')], w)"
proof -
  have look: "ddbGet e SESSIONS_TABLE (Some (S sessionId)) w = Inr (Some session)"
    using assms(2,3,4) by (simp add: ddbGet_present)
  have late: "jsGreater (dateNow e div 1000) (attr session ''expireAt'')"
    using assms(5,6) by (simp add: jsGreater_def)
  show ?thesis
    using assms(1,2) look late by (simp add: attendance_mark_def student_scan_qr_def)
qed

lemma demoWorld_sessions:
  "ddb demoWorld SESSIONS_TABLE = demoSessions"
  "ddb demoWorld USERS_TABLE = demoUsers"
  "ddb demoWorld ATTENDANCE_TABLE = Map.empty"
  "ddb demoWorld TIMETABLE_TABLE = Map.empty"
  by (simp_all add: demoWorld_def)

theorem expired_session_not_marked_witness:
  "attendance_mark demoEnv ''10000000042'' ''CLASS-CS101-1699990000000'' demoWorld
     = (json 200 [(''success'', B False), (''error'', S ''Session expired'')], demoWorld)
   \<and> student_scan_qr demoEnv ''10000000042'' ''CLASS-CS101-1699990000000'' ''back'' demoWorld
     = (json 200 [(''success'', B False), (''error'', S ''QR code has expired'')], demoWorld)"
proof -
  have 1: "\<not> missing ''10000000042''" and 2: "\<not> missing ''CLASS-CS101-1699990000000''"
    by (simp_all add: missing_def)
  have 3: "rejects demoEnv (GetCommand SESSIONS_TABLE ''CLASS-CS101-1699990000000'') = None"
    by (simp add: demoEnv_sel)
  have 4: "ddb demoWorld SESSIONS_TABLE ''CLASS-CS101-1699990000000''
             = Some [(''sessionId'', S ''CLASS-CS101-1699990000000''), (''classId'', S ''CS101''),
                     (''teacherId'', S ''TEACH001''), (''expireAt'', N 1699990600)]"
    by (simp add: demoWorld_sessions demoSessions_def)
  have 5: "attr [(''sessionId'', S ''CLASS-CS101-1699990000000''), (''classId'', S ''CS101''),
                     (''teacherId'', S ''TEACH001''), (''expireAt'', N 1699990600)] ''expireAt''
             = Some (N 1699990600)"
    by (simp add: attr_def)
  have 6: "1699990600 < int (dateNow demoEnv div 1000)"
    by (simp add: demoEnv_sel)
  show ?thesis by (rule expired_session_not_marked [OF 1 2 3 4 5 6])
qed

lemma ddbPut_attendance:
  assumes "attr it ''attendanceId'' = Some (S k)"
  shows "ddbPut e ATTENDANCE_TABLE it w = Inr w' \<longleftrightarrow>
           (k \<noteq> [] \<and> rejects e (PutCommand ATTENDANCE_TABLE k) = None
            \<and> w' = w\<lparr>ddb := (ddb w)(ATTENDANCE_TABLE := (ddb w ATTENDANCE_TABLE)(k \<mapsto> it))\<rparr>)"
  using assms by (auto simp: ddbPut_def split: option.splits)

lemma attendanceIdOf_nonempty: "attendanceIdOf u s \<noteq> []"
  by (simp add: attendanceIdOf_def)

lemma attendanceIdOf_same_session: "attendanceIdOf u s = attendanceIdOf u' s \<longleftrightarrow> u = u'"
  by (simp add: attendanceIdOf_def)

lemma faceRecord_attrs:
  "attr (faceRecord e u s) ''attendanceId'' = Some (S (attendanceIdOf u s))"
  "attr (faceRecord e u s) ''userId'' = Some (S u)"
  "attr (faceRecord e u s) ''sessionId'' = Some (S s)"
  "attr (faceRecord e u s) ''timestamp'' = Some (S (dateIso e))"
  "attr (faceRecord e u s) ''status'' = Some (S ''Present'')"
  "attr (faceRecord e u s) ''method'' = None"
  by (simp_all add: faceRecord_def attr_def Let_def)

lemma qrRecord_attrs:
  "attr (qrRecord e u s c) ''attendanceId'' = Some (S (attendanceIdOf u s))"
  "attr (qrRecord e u s c) ''userId'' = Some (S u)"
  "attr (qrRecord e u s c) ''sessionId'' = Some (S s)"
  "attr (qrRecord e u s c) ''timestamp'' = Some (S (dateIso e))"
  "attr (qrRecord e u s c) ''status'' = Some (S ''Present'')"
  "attr (qrRecord e u s c) ''method'' = Some (S ''qr_scan'')"
  by (simp_all add: qrRecord_def attr_def Let_def)

lemma manualRecord_attrs:
  "attr (manualRecord e t s u) ''attendanceId'' = Some (S (attendanceIdOf u s))"
  "attr (manualRecord e t s u) ''userId'' = Some (S u)"
  "attr (manualRecord e t s u) ''sessionId'' = Some (S s)"
  "attr (manualRecord e t s u) ''timestamp'' = Some (S (dateIso e))"
  "attr (manualRecord e t s u) ''status'' = Some (S ''Present'')"
  "attr (manualRecord e t s u) ''markedBy'' = Some (S t)"
  "attr (manualRecord e t s u) ''method'' = Some (S ''manual'')"
  by (simp_all add: manualRecord_def attr_def)

lemma pairKey_records:
  "pairKey (faceRecord e u s) = Some (attendanceIdOf u s)"
  "pairKey (qrRecord e u s c) = Some (attendanceIdOf u s)"
  "pairKey (manualRecord e t s u) = Some (attendanceIdOf u s)"
  by (simp_all add: pairKey_def faceRecord_attrs qrRecord_attrs manualRecord_attrs)

text \<open>What a marking by face leaves behind.\<close>

lemma attendance_mark_effect:
  "attendance_mark e u s w =
     (if attr (body (fst (attendance_mark e u s w))) ''success'' = Some (B True)
      then (json 200 [(''success'', B True), (''message'', S ''Attendance marked'')],
            w\<lparr>ddb := (ddb w)(ATTENDANCE_TABLE :=
                 (ddb w ATTENDANCE_TABLE)(attendanceIdOf u s \<mapsto> faceRecord e u s))\<rparr>)
      else (fst (attendance_mark e u s w), w))"
proof (cases "ddbPut e ATTENDANCE_TABLE (faceRecord e u s) w")
  case (Inl err)
  then show ?thesis
    by (simp add: attendance_mark_def json_def serverError_def attr_def Let_def
        split: sum.splits option.splits)
next
  case (Inr w')
  then have "w' = w\<lparr>ddb := (ddb w)(ATTENDANCE_TABLE :=
                 (ddb w ATTENDANCE_TABLE)(attendanceIdOf u s \<mapsto> faceRecord e u s))\<rparr>"
    using ddbPut_attendance [OF faceRecord_attrs(1)] by blast
  with Inr show ?thesis
    by (simp add: attendance_mark_def json_def serverError_def attr_def Let_def
        split: sum.splits option.splits)
qed

lemma student_scan_qr_effect:
  "snd (student_scan_qr e u s c w) =
     (if attr (body (fst (student_scan_qr e u s c w))) ''success'' = Some (B True)
      then w\<lparr>ddb := (ddb w)(ATTENDANCE_TABLE :=
                 (ddb w ATTENDANCE_TABLE)(attendanceIdOf u s \<mapsto> qrRecord e u s c))\<rparr>
      else w)"
proof (cases "ddbPut e ATTENDANCE_TABLE (qrRecord e u s c) w")
  case (Inl err)
  then show ?thesis
    by (simp add: student_scan_qr_def json_def serverError_def attr_def Let_def
        split: sum.splits option.splits)
next
  case (Inr w')
  then have "w' = w\<lparr>ddb := (ddb w)(ATTENDANCE_TABLE :=
                 (ddb w ATTENDANCE_TABLE)(attendanceIdOf u s \<mapsto> qrRecord e u s c))\<rparr>"
    using ddbPut_attendance [OF qrRecord_attrs(1)] by blast
  with Inr show ?thesis
    by (simp add: student_scan_qr_def json_def serverError_def attr_def Let_def
        split: sum.splits option.splits)
qed

lemma ddbPut_manual:
  "ddbPut e ATTENDANCE_TABLE (manualRecord e t fs a) w =
     (case rejects e (PutCommand ATTENDANCE_TABLE (attendanceIdOf a fs)) of
        Some m \<Rightarrow> Inl m
      | None \<Rightarrow> Inr (w\<lparr>ddb := (ddb w)(ATTENDANCE_TABLE :=
                  (ddb w ATTENDANCE_TABLE)(attendanceIdOf a fs \<mapsto> manualRecord e t fs a))\<rparr>))"
  by (simp add: ddbPut_def manualRecord_attrs attendanceIdOf_nonempty)

lemma putAll_manual:
  "putAll e (map (manualRecord e t fs) sts) w = (errs, w') \<Longrightarrow>
     (\<forall>tb. tb \<noteq> ATTENDANCE_TABLE \<longrightarrow> ddb w' tb = ddb w tb)
   \<and> bucket w' = bucket w \<and> collection w' = collection w
   \<and> (\<forall>k. ddb w' ATTENDANCE_TABLE k = ddb w ATTENDANCE_TABLE k
          \<or> (\<exists>st\<in>set sts. k = attendanceIdOf st fs
                \<and> ddb w' ATTENDANCE_TABLE k = Some (manualRecord e t fs st)))
   \<and> (errs = [] \<longrightarrow>
         (\<forall>st\<in>set sts. ddb w' ATTENDANCE_TABLE (attendanceIdOf st fs)
                           = Some (manualRecord e t fs st)))"
proof (induction sts arbitrary: w errs w')
  case Nil
  then show ?case by simp
next
  case (Cons a sts)
  show ?case
  proof (cases "rejects e (PutCommand ATTENDANCE_TABLE (attendanceIdOf a fs))")
    case (Some m)
    then obtain errs0 where rest: "putAll e (map (manualRecord e t fs) sts) w = (errs0, w')"
      and errs: "errs = m # errs0"
      using Cons.prems by (auto simp: ddbPut_manual split: prod.splits)
    from Cons.IH [OF rest] errs show ?thesis by auto
  next
    case None
    let ?w1 = "w\<lparr>ddb := (ddb w)(ATTENDANCE_TABLE :=
                  (ddb w ATTENDANCE_TABLE)(attendanceIdOf a fs \<mapsto> manualRecord e t fs a))\<rparr>"
    from None Cons.prems
    have rest: "putAll e (map (manualRecord e t fs) sts) ?w1 = (errs, w')"
      by (simp add: ddbPut_manual)
    note ih = Cons.IH [OF rest]
    have frame: "(\<forall>tb. tb \<noteq> ATTENDANCE_TABLE \<longrightarrow> ddb w' tb = ddb w tb)
                 \<and> bucket w' = bucket w \<and> collection w' = collection w"
      using ih by simp
    have rows: "ddb w' ATTENDANCE_TABLE k = ddb w ATTENDANCE_TABLE k
          \<or> (\<exists>st\<in>set (a # sts). k = attendanceIdOf st fs
                \<and> ddb w' ATTENDANCE_TABLE k = Some (manualRecord e t fs st))" for k
    proof -
      from ih have "ddb w' ATTENDANCE_TABLE k = ddb ?w1 ATTENDANCE_TABLE k
          \<or> (\<exists>st\<in>set sts. k = attendanceIdOf st fs
                \<and> ddb w' ATTENDANCE_TABLE k = Some (manualRecord e t fs st))"
        by blast
      then show ?thesis by (cases "k = attendanceIdOf a fs") auto
    qed
    have all: "ddb w' ATTENDANCE_TABLE (attendanceIdOf st fs) = Some (manualRecord e t fs st)"
      if "errs = []" and "st \<in> set (a # sts)" for st
    proof (cases "st \<in> set sts")
      case True
      with ih that(1) show ?thesis by blast
    next
      case False
      with that(2) have st: "st = a" by simp
      from ih have "ddb w' ATTENDANCE_TABLE (attendanceIdOf a fs)
                      = ddb ?w1 ATTENDANCE_TABLE (attendanceIdOf a fs)
          \<or> (\<exists>st'\<in>set sts. attendanceIdOf a fs = attendanceIdOf st' fs
                \<and> ddb w' ATTENDANCE_TABLE (attendanceIdOf a fs) = Some (manualRecord e t fs st'))"
        by blast
      then show ?thesis
        using st by (auto simp: attendanceIdOf_same_session)
    qed
    from frame rows all show ?thesis by blast
  qed
qed

lemma putAll_manual_accepted:
  assumes "\<forall>st\<in>set sts. rejects e (PutCommand ATTENDANCE_TABLE (attendanceIdOf st fs)) = None"
  shows "fst (putAll e (map (manualRecord e t fs) sts) w) = []"
  using assms by (induction sts arbitrary: w) (simp_all add: ddbPut_manual)

lemma submit_effect:
  assumes "teacher_submit_attendance e t c (Some sts) s w = (r, w')"
  shows "(\<forall>k. ddb w' ATTENDANCE_TABLE k = ddb w ATTENDANCE_TABLE k
          \<or> (\<exists>st\<in>set sts. k = attendanceIdOf st (finalSessionIdOf e c s)
                \<and> ddb w' ATTENDANCE_TABLE k
                    = Some (manualRecord e t (finalSessionIdOf e c s) st)))
       \<and> (attr (body r) ''success'' = Some (B True) \<longrightarrow>
            (\<forall>st\<in>set sts. ddb w' ATTENDANCE_TABLE (attendanceIdOf st (finalSessionIdOf e c s))
                              = Some (manualRecord e t (finalSessionIdOf e c s) st)))"
proof (cases "missing t \<or> missing c")
  case True
  with assms show ?thesis
    by (auto simp: teacher_submit_attendance_def json_def attr_def)
next
  case False
  obtain errs w1 where run:
    "putAll e (map (manualRecord e t (finalSessionIdOf e c s)) sts) w = (errs, w1)"
    by (cases "putAll e (map (manualRecord e t (finalSessionIdOf e c s)) sts) w") auto
  note eff = putAll_manual [OF run]
  show ?thesis
  proof (cases errs)
    case Nil
    with run False assms have "w' = w1"
      by (simp add: teacher_submit_attendance_def Let_def)
    with eff Nil show ?thesis by blast
  next
    case (Cons err rest)
    with run False assms have "w' = w1" and "r = serverError err"
      by (simp_all add: teacher_submit_attendance_def Let_def)
    then have "w' = w1" and "attr (body r) ''success'' \<noteq> Some (B True)"
      by (simp_all add: serverError_def json_def attr_def)
    with eff show ?thesis by blast
  qed
qed

lemma keyedByPair_unique:
  assumes "keyedByPair T" and "T k1 = Some r1" and "T k2 = Some r2"
    and "attr r1 ''userId'' = attr r2 ''userId''" and "attr r1 ''sessionId'' = attr r2 ''sessionId''"
  shows "k1 = k2"
proof -
  from assms(1,2) have "pairKey r1 = Some k1" by (simp add: keyedByPair_def)
  moreover from assms(1,3) have "pairKey r2 = Some k2" by (simp add: keyedByPair_def)
  moreover from assms(4,5) have "pairKey r1 = pairKey r2" by (simp add: pairKey_def)
  ultimately show ?thesis by simp
qed

lemma mark_rows:
  "(\<forall>k. ddb (snd (mark e m w)) ATTENDANCE_TABLE k = ddb w ATTENDANCE_TABLE k
       \<or> (\<exists>it. ddb (snd (mark e m w)) ATTENDANCE_TABLE k = Some it
              \<and> pairKey it = Some k \<and> attr it ''attendanceId'' = Some (S k)
              \<and> attr it ''timestamp'' = Some (S (dateIso e))
              \<and> k \<in> (\<lambda>(u, s). attendanceIdOf u s) ` set (targets e m)))
 \<and> (attr (body (fst (mark e m w))) ''success'' = Some (B True) \<longrightarrow>
      (\<forall>(u, s)\<in>set (targets e m).
          \<exists>it. ddb (snd (mark e m w)) ATTENDANCE_TABLE (attendanceIdOf u s) = Some it
             \<and> attr it ''attendanceId'' = Some (S (attendanceIdOf u s))
             \<and> attr it ''userId'' = Some (S u) \<and> attr it ''sessionId'' = Some (S s)
             \<and> attr it ''timestamp'' = Some (S (dateIso e))))"
proof (cases m)
  case (FaceMark u s)
  show ?thesis
    unfolding FaceMark mark.simps targets.simps
    by (subst (1 2 3) attendance_mark_effect)
       (simp add: faceRecord_attrs pairKey_records)
next
  case (QrScan u s c)
  show ?thesis
    unfolding QrScan mark.simps targets.simps
    by (simp add: student_scan_qr_effect qrRecord_attrs pairKey_records)
next
  case (ManualSubmit t c ps s)
  show ?thesis
  proof (cases ps)
    case None
    then show ?thesis
      unfolding ManualSubmit by (simp add: teacher_submit_attendance_def)
  next
    case (Some sts)
    obtain r w' where run: "teacher_submit_attendance e t c (Some sts) s w = (r, w')"
      by (cases "teacher_submit_attendance e t c (Some sts) s w") auto
    from submit_effect [OF run] show ?thesis
      unfolding ManualSubmit Some mark.simps targets.simps run
      by (simp add: manualRecord_attrs pairKey_records image_iff) (metis manualRecord_attrs(1,4) pairKey_records(3))
  qed
qed

lemma laterEnv_sel:
  "dateNow laterEnv = 1700000000999"
  "dateIso laterEnv = ''2023-11-14T22:13:20.999Z''"
  "rejects laterEnv c = None"
  by (simp_all add: laterEnv_def demoEnv_def)

text \<open>
  Claim C2. Every route writes an attendance row under the identifier derived from the
  user id and the session id of that row, and touches no other row. So a table in which
  every row is stored under its derived identifier stays so after any marking request: two
  rows with the same user and session have the same identifier. A request that succeeds
  leaves, for each pair it marks, its own record (with its own timestamp) at the derived
  identifier, in place of whatever was there.
\<close>

theorem one_row_per_user_and_session:
  assumes "keyedByPair (ddb w ATTENDANCE_TABLE)"
  shows "keyedByPair (ddb (snd (mark e m w)) ATTENDANCE_TABLE)
       \<and> (\<forall>k1 k2 r1 r2.
             ddb (snd (mark e m w)) ATTENDANCE_TABLE k1 = Some r1
           \<and> ddb (snd (mark e m w)) ATTENDANCE_TABLE k2 = Some r2
           \<and> attr r1 ''userId'' = attr r2 ''userId''
           \<and> attr r1 ''sessionId'' = attr r2 ''sessionId'' \<longrightarrow> k1 = k2)
       \<and> (\<forall>k. k \<notin> (\<lambda>(u, s). attendanceIdOf u s) ` set (targets e m) \<longrightarrow>
             ddb (snd (mark e m w)) ATTENDANCE_TABLE k = ddb w ATTENDANCE_TABLE k)
       \<and> (attr (body (fst (mark e m w))) ''success'' = Some (B True) \<longrightarrow>
            (\<forall>(u, s)\<in>set (targets e m).
                \<exists>it. ddb (snd (mark e m w)) ATTENDANCE_TABLE (attendanceIdOf u s) = Some it
                   \<and> attr it ''attendanceId'' = Some (S (attendanceIdOf u s))
                   \<and> attr it ''userId'' = Some (S u) \<and> attr it ''sessionId'' = Some (S s)
                   \<and> attr it ''timestamp'' = Some (S (dateIso e))))"
proof -
  note rows = mark_rows [of e m w]
  have inv: "keyedByPair (ddb (snd (mark e m w)) ATTENDANCE_TABLE)"
    unfolding keyedByPair_def
  proof (intro allI impI)
    fix k it
    assume row: "ddb (snd (mark e m w)) ATTENDANCE_TABLE k = Some it"
    from rows have "ddb (snd (mark e m w)) ATTENDANCE_TABLE k = ddb w ATTENDANCE_TABLE k
       \<or> (\<exists>it. ddb (snd (mark e m w)) ATTENDANCE_TABLE k = Some it
              \<and> pairKey it = Some k \<and> attr it ''attendanceId'' = Some (S k))"
      by blast
    then show "pairKey it = Some k \<and> attr it ''attendanceId'' = Some (S k)"
    proof
      assume "ddb (snd (mark e m w)) ATTENDANCE_TABLE k = ddb w ATTENDANCE_TABLE k"
      with row assms show ?thesis by (simp add: keyedByPair_def)
    next
      assume "\<exists>it. ddb (snd (mark e m w)) ATTENDANCE_TABLE k = Some it
              \<and> pairKey it = Some k \<and> attr it ''attendanceId'' = Some (S k)"
      with row show ?thesis by auto
    qed
  qed
  have uniq: "\<forall>k1 k2 r1 r2.
             ddb (snd (mark e m w)) ATTENDANCE_TABLE k1 = Some r1
           \<and> ddb (snd (mark e m w)) ATTENDANCE_TABLE k2 = Some r2
           \<and> attr r1 ''userId'' = attr r2 ''userId''
           \<and> attr r1 ''sessionId'' = attr r2 ''sessionId'' \<longrightarrow> k1 = k2"
    using keyedByPair_unique [OF inv] by blast
  have frame: "\<forall>k. k \<notin> (\<lambda>(u, s). attendanceIdOf u s) ` set (targets e m) \<longrightarrow>
             ddb (snd (mark e m w)) ATTENDANCE_TABLE k = ddb w ATTENDANCE_TABLE k"
    using rows by blast
  from inv uniq frame rows show ?thesis by blast
qed

lemma demo_open_session:
  "ddb demoWorld SESSIONS_TABLE openSession
     = Some [(''sessionId'', S ''CLASS-CS101-1699999400000''), (''classId'', S ''CS101''),
             (''teacherId'', S ''TEACH001''), (''expireAt'', N 1700000000)]"
  by (simp add: demoWorld_sessions demoSessions_def openSession_def)

lemma demo_names_present:
  "\<not> missing demoStudent" "\<not> missing openSession" "\<not> missing closedSession"
  by (simp_all add: missing_def demoStudent_def openSession_def closedSession_def)

lemma ddbPut_record:
  assumes "attr it ''attendanceId'' = Some (S (attendanceIdOf u s))"
    and "rejects e (PutCommand ATTENDANCE_TABLE (attendanceIdOf u s)) = None"
  shows "ddbPut e ATTENDANCE_TABLE it w
           = Inr (w\<lparr>ddb := (ddb w)(ATTENDANCE_TABLE :=
                    (ddb w ATTENDANCE_TABLE)(attendanceIdOf u s \<mapsto> it))\<rparr>)"
  using assms by (simp add: ddbPut_def attendanceIdOf_nonempty)

lemma attendance_mark_ok:
  assumes "\<not> missing u" and "\<not> missing s"
    and "rejects e (GetCommand SESSIONS_TABLE s) = None"
    and "ddb w SESSIONS_TABLE s = Some session"
    and "attr session ''expireAt'' = Some (N x)" and "int (dateNow e div 1000) \<le> x"
    and "rejects e (PutCommand ATTENDANCE_TABLE (attendanceIdOf u s)) = None"
  shows "attendance_mark e u s w
     = (json 200 [(''success'', B True), (''message'', S ''Attendance marked'')],
        w\<lparr>ddb := (ddb w)(ATTENDANCE_TABLE :=
           (ddb w ATTENDANCE_TABLE)(attendanceIdOf u s \<mapsto> faceRecord e u s))\<rparr>)"
proof -
  have look: "ddbGet e SESSIONS_TABLE (Some (S s)) w = Inr (Some session)"
    using assms(2,3,4) by (simp add: ddbGet_present)
  have fresh: "\<not> jsGreater (dateNow e div 1000) (attr session ''expireAt'')"
    using assms(5,6) by (simp add: jsGreater_def)
  have put: "ddbPut e ATTENDANCE_TABLE (faceRecord e u s) w
           = Inr (w\<lparr>ddb := (ddb w)(ATTENDANCE_TABLE :=
                    (ddb w ATTENDANCE_TABLE)(attendanceIdOf u s \<mapsto> faceRecord e u s))\<rparr>)"
    using faceRecord_attrs(1) assms(7) by (rule ddbPut_record)
  show ?thesis
    using assms(1,2) look fresh put by (simp add: attendance_mark_def)
qed

lemma student_scan_qr_ok:
  assumes "\<not> missing u" and "\<not> missing s"
    and "rejects e (GetCommand SESSIONS_TABLE s) = None"
    and "ddb w SESSIONS_TABLE s = Some session"
    and "attr session ''expireAt'' = Some (N x)" and "int (dateNow e div 1000) \<le> x"
    and "rejects e (PutCommand ATTENDANCE_TABLE (attendanceIdOf u s)) = None"
  shows "snd (student_scan_qr e u s c w)
     = w\<lparr>ddb := (ddb w)(ATTENDANCE_TABLE :=
           (ddb w ATTENDANCE_TABLE)(attendanceIdOf u s \<mapsto> qrRecord e u s c))\<rparr>
     \<and> attr (body (fst (student_scan_qr e u s c w))) ''success'' = Some (B True)"
proof -
  have look: "ddbGet e SESSIONS_TABLE (Some (S s)) w = Inr (Some session)"
    using assms(2,3,4) by (simp add: ddbGet_present)
  have fresh: "\<not> jsGreater (dateNow e div 1000) (attr session ''expireAt'')"
    using assms(5,6) by (simp add: jsGreater_def)
  have put: "ddbPut e ATTENDANCE_TABLE (qrRecord e u s c) w
           = Inr (w\<lparr>ddb := (ddb w)(ATTENDANCE_TABLE :=
                    (ddb w ATTENDANCE_TABLE)(attendanceIdOf u s \<mapsto> qrRecord e u s c))\<rparr>)"
    using qrRecord_attrs(1) assms(7) by (rule ddbPut_record)
  show ?thesis
    using assms(1,2) look fresh put by (simp add: student_scan_qr_def json_def attr_def)
qed

lemma demo_expireAt:
  "attr [(''sessionId'', S ''CLASS-CS101-1699999400000''), (''classId'', S ''CS101''),
             (''teacherId'', S ''TEACH001''), (''expireAt'', N 1700000000)] ''expireAt''
     = Some (N 1700000000)"
  by (simp add: attr_def)

lemma afterScan_eq:
  "afterScan = demoWorld\<lparr>ddb := (ddb demoWorld)(ATTENDANCE_TABLE :=
           [attendanceIdOf demoStudent openSession
              \<mapsto> qrRecord demoEnv demoStudent openSession ''back''])\<rparr>"
proof -
  have "int (dateNow demoEnv div 1000) \<le> 1700000000" by (simp add: demoEnv_sel)
  from student_scan_qr_ok [OF demo_names_present(1,2) demoEnv_sel(6) demo_open_session
      demo_expireAt this demoEnv_sel(6)]
  show ?thesis by (simp add: afterScan_def demoWorld_sessions)
qed

lemma demo_remark:
  "attendance_mark laterEnv demoStudent openSession afterScan
     = (json 200 [(''success'', B True), (''message'', S ''Attendance marked'')],
        demoWorld\<lparr>ddb := (ddb demoWorld)(ATTENDANCE_TABLE :=
           [attendanceIdOf demoStudent openSession
              \<mapsto> faceRecord laterEnv demoStudent openSession])\<rparr>)"
proof -
  have s: "ddb afterScan SESSIONS_TABLE openSession
     = Some [(''sessionId'', S ''CLASS-CS101-1699999400000''), (''classId'', S ''CS101''),
             (''teacherId'', S ''TEACH001''), (''expireAt'', N 1700000000)]"
    using demo_open_session by (simp add: afterScan_eq)
  have "int (dateNow laterEnv div 1000) \<le> 1700000000" by (simp add: laterEnv_sel)
  from attendance_mark_ok [OF demo_names_present(1,2) laterEnv_sel(3) s demo_expireAt this
      laterEnv_sel(3)]
  show ?thesis by (simp add: afterScan_eq)
qed

theorem one_row_per_user_and_session_witness:
  "keyedByPair (ddb demoWorld ATTENDANCE_TABLE)
   \<and> keyedByPair (ddb afterRemark ATTENDANCE_TABLE)
   \<and> dom (ddb afterRemark ATTENDANCE_TABLE) = {''10000000042-CLASS-CS101-1699999400000''}
   \<and> map_option (\<lambda>it. attr it ''timestamp'')
        (ddb afterRemark ATTENDANCE_TABLE ''10000000042-CLASS-CS101-1699999400000'')
       = Some (Some (S ''2023-11-14T22:13:20.999Z''))"
proof -
  have start: "keyedByPair (ddb demoWorld ATTENDANCE_TABLE)"
    by (simp add: keyedByPair_def demoWorld_sessions)
  from one_row_per_user_and_session [OF start]
  have "keyedByPair (ddb afterScan ATTENDANCE_TABLE)"
    unfolding afterScan_def by blast
  from one_row_per_user_and_session [OF this]
  have inv: "keyedByPair (ddb afterRemark ATTENDANCE_TABLE)"
    unfolding afterRemark_def by blast
  have w2: "afterRemark = demoWorld\<lparr>ddb := (ddb demoWorld)(ATTENDANCE_TABLE :=
           [attendanceIdOf demoStudent openSession
              \<mapsto> faceRecord laterEnv demoStudent openSession])\<rparr>"
    by (simp add: afterRemark_def demo_remark)
  have key: "attendanceIdOf demoStudent openSession = ''10000000042-CLASS-CS101-1699999400000''"
    by (simp add: attendanceIdOf_def demoStudent_def openSession_def)
  have "dom (ddb afterRemark ATTENDANCE_TABLE) = {''10000000042-CLASS-CS101-1699999400000''}"
    by (simp add: w2 key)
  moreover have "map_option (\<lambda>it. attr it ''timestamp'')
        (ddb afterRemark ATTENDANCE_TABLE ''10000000042-CLASS-CS101-1699999400000'')
       = Some (Some (S ''2023-11-14T22:13:20.999Z''))"
    by (simp add: w2 key [symmetric] faceRecord_attrs laterEnv_sel)
  ultimately show ?thesis using start inv by blast
qed

text \<open>
  Claim C4, at the request that contradicts it. A student marks an open session through
  \<^verbatim>\<open>/attendance/mark\<close> (the route taken after face verification): the request succeeds
  and the row written has status \<open>Present\<close> and no \<open>method\<close> attribute, where the scan
  route writes \<open>qr_scan\<close> and the manual route writes \<open>manual\<close>.
\<close>

theorem face_mark_writes_no_method:
  "attr (body (fst (attendance_mark demoEnv demoStudent openSession demoWorld))) ''success''
     = Some (B True)
   \<and> map_option (\<lambda>it. (attr it ''status'', attr it ''method''))
        (ddb (snd (attendance_mark demoEnv demoStudent openSession demoWorld)) ATTENDANCE_TABLE
           (attendanceIdOf demoStudent openSession))
       = Some (Some (S ''Present''), None)"
proof -
  have "int (dateNow demoEnv div 1000) \<le> 1700000000" by (simp add: demoEnv_sel)
  from attendance_mark_ok [OF demo_names_present(1,2) demoEnv_sel(6) demo_open_session
      demo_expireAt this demoEnv_sel(6)]
  show ?thesis
    by (simp add: json_def attr_def faceRecord_def)
qed

section \<open>Manual submission\<close>

lemma putAll_reads_attendance_only:
  "ddb w ATTENDANCE_TABLE = ddb v ATTENDANCE_TABLE \<Longrightarrow>
     fst (putAll e its w) = fst (putAll e its v)
   \<and> ddb (snd (putAll e its w)) ATTENDANCE_TABLE = ddb (snd (putAll e its v)) ATTENDANCE_TABLE"
proof (induction its arbitrary: w v)
  case Nil
  then show ?case by simp
next
  case (Cons it its)
  show ?case
  proof (cases "ddbPut e ATTENDANCE_TABLE it w")
    case (Inl err)
    then have "ddbPut e ATTENDANCE_TABLE it v = Inl err"
      by (auto simp: ddbPut_def split: option.splits val.splits if_splits)
    with Inl Cons.IH [OF Cons.prems] show ?thesis
      by (simp add: split_beta)
  next
    case (Inr w1)
    then obtain k where k: "attr it ''attendanceId'' = Some (S k)"
      by (auto simp: ddbPut_def split: option.splits val.splits if_splits)
    from Inr have w1: "w1 = w\<lparr>ddb := (ddb w)(ATTENDANCE_TABLE := (ddb w ATTENDANCE_TABLE)(k \<mapsto> it))\<rparr>"
      and ok: "k \<noteq> []" "rejects e (PutCommand ATTENDANCE_TABLE k) = None"
      using ddbPut_attendance [OF k] by blast+
    let ?v1 = "v\<lparr>ddb := (ddb v)(ATTENDANCE_TABLE := (ddb v ATTENDANCE_TABLE)(k \<mapsto> it))\<rparr>"
    have v1: "ddbPut e ATTENDANCE_TABLE it v = Inr ?v1"
      using ddbPut_attendance [OF k] ok by blast
    have "ddb w1 ATTENDANCE_TABLE = ddb ?v1 ATTENDANCE_TABLE"
      using Cons.prems by (simp add: w1)
    from Cons.IH [OF this] Inr v1 show ?thesis by simp
  qed
qed

text \<open>
  Claim C10. A manual submission with a teacher id, a class id and an array of student ids
  succeeds whenever the store accepts the writes, and leaves for every listed student a
  \<open>Present\<close> record with method \<open>manual\<close> and the teacher as marker, under the supplied
  session id or, when none is supplied, under a synthesized \<open>MANUAL-\<close> one. Nothing is
  assumed about the session or the students, and the answer and the attendance table are
  the same for any content of the other tables: the handler reads neither the sessions nor
  the users.
\<close>

theorem manual_submission_unchecked:
  assumes "\<not> missing teacherId" and "\<not> missing classId"
    and "\<forall>st\<in>set students. rejects e (PutCommand ATTENDANCE_TABLE
            (attendanceIdOf st (finalSessionIdOf e classId sessionId))) = None"
  shows "status (fst (teacher_submit_attendance e teacherId classId (Some students) sessionId w))
           = 200
       \<and> attr (body (fst (teacher_submit_attendance e teacherId classId (Some students)
                  sessionId w))) ''success'' = Some (B True)
       \<and> finalSessionIdOf e classId sessionId
           = (if missing sessionId then ''MANUAL-'' @ classId @ ''-'' @ natToString (dateNow e)
              else sessionId)
       \<and> (\<forall>st\<in>set students.
             \<exists>it. ddb (snd (teacher_submit_attendance e teacherId classId (Some students)
                            sessionId w)) ATTENDANCE_TABLE
                     (attendanceIdOf st (finalSessionIdOf e classId sessionId)) = Some it
                \<and> attr it ''userId'' = Some (S st)
                \<and> attr it ''sessionId'' = Some (S (finalSessionIdOf e classId sessionId))
                \<and> attr it ''status'' = Some (S ''Present'')
                \<and> attr it ''method'' = Some (S ''manual'')
                \<and> attr it ''markedBy'' = Some (S teacherId))
       \<and> (\<forall>v. ddb v ATTENDANCE_TABLE = ddb w ATTENDANCE_TABLE \<longrightarrow>
             fst (teacher_submit_attendance e teacherId classId (Some students) sessionId v)
               = fst (teacher_submit_attendance e teacherId classId (Some students) sessionId w)
           \<and> ddb (snd (teacher_submit_attendance e teacherId classId (Some students)
                         sessionId v)) ATTENDANCE_TABLE
               = ddb (snd (teacher_submit_attendance e teacherId classId (Some students)
                         sessionId w)) ATTENDANCE_TABLE)"
proof -
  let ?fs = "finalSessionIdOf e classId sessionId"
  let ?its = "map (manualRecord e teacherId ?fs) students"
  have noerr: "fst (putAll e ?its w) = []"
    using assms(3) by (rule putAll_manual_accepted)
  obtain w' where run: "putAll e ?its w = ([], w')"
    using noerr by (cases "putAll e ?its w") auto
  have resp: "teacher_submit_attendance e teacherId classId (Some students) sessionId w
     = (json 200
          [(''success'', B True),
           (''message'', S (''Attendance marked for ''
                            @ natToString (length students) @ '' students'')),
           (''presentCount'', N (int (length students))),
           (''sessionId'', S ?fs)], w')"
    using assms(1,2) run by (simp add: teacher_submit_attendance_def Let_def)
  have rows: "\<forall>st\<in>set students. ddb w' ATTENDANCE_TABLE (attendanceIdOf st ?fs)
                = Some (manualRecord e teacherId ?fs st)"
    using putAll_manual [OF run] by blast
  have fs: "?fs = (if missing sessionId then ''MANUAL-'' @ classId @ ''-'' @ natToString (dateNow e)
              else sessionId)"
    by (simp add: finalSessionIdOf_def orElse_def missing_def)
  have indep: "fst (teacher_submit_attendance e teacherId classId (Some students) sessionId v)
               = fst (teacher_submit_attendance e teacherId classId (Some students) sessionId w)
           \<and> ddb (snd (teacher_submit_attendance e teacherId classId (Some students)
                         sessionId v)) ATTENDANCE_TABLE
               = ddb (snd (teacher_submit_attendance e teacherId classId (Some students)
                         sessionId w)) ATTENDANCE_TABLE"
    if "ddb v ATTENDANCE_TABLE = ddb w ATTENDANCE_TABLE" for v
  proof -
    from putAll_reads_attendance_only [OF that, of e ?its] run
    obtain v' where "putAll e ?its v = ([], v')"
      and "ddb v' ATTENDANCE_TABLE = ddb w' ATTENDANCE_TABLE"
      by (cases "putAll e ?its v") auto
    then show ?thesis
      using assms(1,2) by (simp add: resp) (simp add: teacher_submit_attendance_def Let_def)
  qed
  show ?thesis
    unfolding resp using rows fs indep
    by (simp add: json_def attr_def resp) (simp add: manualRecord_attrs [unfolded attr_def])
qed

theorem manual_submission_unchecked_witness:
  "ddb demoWorld SESSIONS_TABLE ''NO-SUCH-SESSION'' = None
   \<and> ddb demoWorld USERS_TABLE ''ghost-1'' = None
   \<and> status (fst (teacher_submit_attendance demoEnv ''TEACH001'' ''CS101''
                    (Some [''ghost-1'', ''ghost-2'']) ''NO-SUCH-SESSION'' demoWorld)) = 200
   \<and> (\<exists>it. ddb (snd (teacher_submit_attendance demoEnv ''TEACH001'' ''CS101''
                    (Some [''ghost-1'', ''ghost-2'']) ''NO-SUCH-SESSION'' demoWorld))
              ATTENDANCE_TABLE ''ghost-1-NO-SUCH-SESSION'' = Some it
          \<and> attr it ''status'' = Some (S ''Present'')
          \<and> attr it ''method'' = Some (S ''manual''))"
proof -
  have 1: "\<not> missing ''TEACH001''" and 2: "\<not> missing ''CS101''"
    by (simp_all add: missing_def)
  have 3: "\<forall>st\<in>set [''ghost-1'', ''ghost-2'']. rejects demoEnv (PutCommand ATTENDANCE_TABLE
            (attendanceIdOf st (finalSessionIdOf demoEnv ''CS101'' ''NO-SUCH-SESSION''))) = None"
    by (simp add: demoEnv_sel)
  have fs: "finalSessionIdOf demoEnv ''CS101'' ''NO-SUCH-SESSION'' = ''NO-SUCH-SESSION''"
    by (simp add: finalSessionIdOf_def orElse_def)
  have key: "attendanceIdOf ''ghost-1'' ''NO-SUCH-SESSION'' = ''ghost-1-NO-SUCH-SESSION''"
    by (simp add: attendanceIdOf_def)
  have absent: "ddb demoWorld SESSIONS_TABLE ''NO-SUCH-SESSION'' = None"
    "ddb demoWorld USERS_TABLE ''ghost-1'' = None"
    by (simp_all add: demoWorld_sessions demoSessions_def demoUsers_def)
  note run = manual_submission_unchecked [OF 1 2 3, of demoWorld]
  have ok: "status (fst (teacher_submit_attendance demoEnv ''TEACH001'' ''CS101''
                    (Some [''ghost-1'', ''ghost-2'']) ''NO-SUCH-SESSION'' demoWorld)) = 200"
    using run by (rule conjunct1)
  have "''ghost-1'' \<in> set [''ghost-1'', ''ghost-2'']" by simp
  with run [THEN conjunct2, THEN conjunct2, THEN conjunct2, THEN conjunct1]
  have "\<exists>it. ddb (snd (teacher_submit_attendance demoEnv ''TEACH001'' ''CS101''
                    (Some [''ghost-1'', ''ghost-2'']) ''NO-SUCH-SESSION'' demoWorld))
              ATTENDANCE_TABLE
              (attendanceIdOf ''ghost-1'' (finalSessionIdOf demoEnv ''CS101'' ''NO-SUCH-SESSION''))
                = Some it
          \<and> attr it ''userId'' = Some (S ''ghost-1'')
          \<and> attr it ''sessionId''
                = Some (S (finalSessionIdOf demoEnv ''CS101'' ''NO-SUCH-SESSION''))
          \<and> attr it ''status'' = Some (S ''Present'')
          \<and> attr it ''method'' = Some (S ''manual'')
          \<and> attr it ''markedBy'' = Some (S ''TEACH001'')"
    by (rule bspec)
  then have row: "\<exists>it. ddb (snd (teacher_submit_attendance demoEnv ''TEACH001'' ''CS101''
                    (Some [''ghost-1'', ''ghost-2'']) ''NO-SUCH-SESSION'' demoWorld))
              ATTENDANCE_TABLE ''ghost-1-NO-SUCH-SESSION'' = Some it
          \<and> attr it ''status'' = Some (S ''Present'')
          \<and> attr it ''method'' = Some (S ''manual'')"
    unfolding fs key by blast
  from absent ok row show ?thesis by blast
qed

section \<open>Login and teacher assignment\<close>

lemma attr_update:
  "attr (AList.update k v it) k' = (if k' = k then Some v else attr it k')"
  by (simp add: attr_def update_conv')

text \<open>
  Claim C9. For an approved user whose stored password is the supplied one, login
  succeeds and echoes the role of the request. The role stored on the user record is not
  consulted: nothing is assumed about it, and the answer is the same when the record holds
  any other role.
\<close>

theorem login_ignores_stored_role:
  assumes "\<not> missing userId" and "\<not> missing password" and "\<not> missing role"
    and "rejects e (GetCommand USERS_TABLE userId) = None"
    and "ddb w USERS_TABLE userId = Some user"
    and "truthy (attr user ''approved'')"
    and "attr user ''password'' = Some (S password)"
  shows "auth_login e userId password role w
           = (json 200 [(''success'', B True), (''message'', S ''Login successful''),
                        (''userId'', S userId), (''role'', S role)], w)
       \<and> fst (auth_login e userId password role
                (w\<lparr>ddb := (ddb w)(USERS_TABLE := (ddb w USERS_TABLE)
                        (userId \<mapsto> AList.update ''role'' storedRole user))\<rparr>))
           = json 200 [(''success'', B True), (''message'', S ''Login successful''),
                       (''userId'', S userId), (''role'', S role)]"
proof -
  have look: "ddbGet e USERS_TABLE (Some (S userId)) w = Inr (Some user)"
    using assms(1,4,5) by (simp add: ddbGet_present)
  have first: "auth_login e userId password role w
           = (json 200 [(''success'', B True), (''message'', S ''Login successful''),
                        (''userId'', S userId), (''role'', S role)], w)"
    using assms(1,2,3,6,7) look by (simp add: auth_login_def)
  let ?w = "w\<lparr>ddb := (ddb w)(USERS_TABLE := (ddb w USERS_TABLE)
                        (userId \<mapsto> AList.update ''role'' storedRole user))\<rparr>"
  have look': "ddbGet e USERS_TABLE (Some (S userId)) ?w
                 = Inr (Some (AList.update ''role'' storedRole user))"
    using assms(1,4) by (simp add: ddbGet_present)
  have "auth_login e userId password role ?w
           = (json 200 [(''success'', B True), (''message'', S ''Login successful''),
                        (''userId'', S userId), (''role'', S role)], ?w)"
    using assms(1,2,3,6,7) look' by (simp add: auth_login_def attr_update)
  with first show ?thesis by simp
qed

lemma demo_teacher:
  "ddb demoWorld USERS_TABLE ''TEACH001''
     = Some [(''userId'', S ''TEACH001''), (''name'', S ''Dr. Sarah Johnson''),
             (''password'', S ''password123''), (''role'', S ''teacher''),
             (''approved'', B True)]"
  by (simp add: demoWorld_sessions demoUsers_def)

lemma demo_student:
  "ddb demoWorld USERS_TABLE demoStudent
     = Some [(''userId'', S ''10000000042''), (''name'', S ''Test User 1''),
             (''email'', S ''test1@example.com''), (''role'', S ''student''),
             (''approved'', B False), (''faceImage'', S demoImage)]"
  by (simp add: demoWorld_sessions demoUsers_def demoStudent_def)

theorem login_ignores_stored_role_witness:
  "attr [(''userId'', S ''TEACH001''), (''name'', S ''Dr. Sarah Johnson''),
         (''password'', S ''password123''), (''role'', S ''teacher''),
         (''approved'', B True)] ''role'' = Some (S ''teacher'')
   \<and> auth_login demoEnv ''TEACH001'' ''password123'' ''admin'' demoWorld
       = (json 200 [(''success'', B True), (''message'', S ''Login successful''),
                    (''userId'', S ''TEACH001''), (''role'', S ''admin'')], demoWorld)"
proof -
  have 1: "\<not> missing ''TEACH001''" and 2: "\<not> missing ''password123''"
    and 3: "\<not> missing ''admin''"
    by (simp_all add: missing_def)
  have 6: "truthy (attr [(''userId'', S ''TEACH001''), (''name'', S ''Dr. Sarah Johnson''),
         (''password'', S ''password123''), (''role'', S ''teacher''),
         (''approved'', B True)] ''approved'')"
    and 7: "attr [(''userId'', S ''TEACH001''), (''name'', S ''Dr. Sarah Johnson''),
         (''password'', S ''password123''), (''role'', S ''teacher''),
         (''approved'', B True)] ''password'' = Some (S ''password123'')"
    and r: "attr [(''userId'', S ''TEACH001''), (''name'', S ''Dr. Sarah Johnson''),
         (''password'', S ''password123''), (''role'', S ''teacher''),
         (''approved'', B True)] ''role'' = Some (S ''teacher'')"
    by (simp_all add: attr_def)
  from login_ignores_stored_role [OF 1 2 3 demoEnv_sel(6) demo_teacher 6 7] r
  show ?thesis by blast
qed

text \<open>
  Claim C8. An assign-teacher request (timetable id and teacher id given) whose teacher id
  names no user, or a user whose role is not \<open>teacher\<close>, is answered with status 404 and
  leaves the stores, so the timetable, unchanged.
\<close>

theorem assign_teacher_rejects_non_teacher:
  assumes "\<not> missing timetableId" and "\<not> missing teacherId"
    and "rejects e (GetCommand USERS_TABLE teacherId) = None"
    and "ddb w USERS_TABLE teacherId = None
         \<or> (\<exists>u. ddb w USERS_TABLE teacherId = Some u \<and> attr u ''role'' \<noteq> Some (S ''teacher''))"
  shows "admin_assign_teacher e timetableId teacherId teacherName w
           = (json 404 [(''success'', B False),
                        (''error'', S ''Teacher not found or invalid role'')], w)
       \<and> ddb (snd (admin_assign_teacher e timetableId teacherId teacherName w)) TIMETABLE_TABLE
           = ddb w TIMETABLE_TABLE"
proof -
  have look: "ddbGet e USERS_TABLE (Some (S teacherId)) w = Inr (ddb w USERS_TABLE teacherId)"
    using assms(2,3) by (simp add: ddbGet_present)
  from assms(4) have "admin_assign_teacher e timetableId teacherId teacherName w
           = (json 404 [(''success'', B False),
                        (''error'', S ''Teacher not found or invalid role'')], w)"
  proof
    assume "ddb w USERS_TABLE teacherId = None"
    with assms(1,2) look show ?thesis by (simp add: admin_assign_teacher_def)
  next
    assume "\<exists>u. ddb w USERS_TABLE teacherId = Some u \<and> attr u ''role'' \<noteq> Some (S ''teacher'')"
    then obtain u where "ddb w USERS_TABLE teacherId = Some u"
      and "attr u ''role'' \<noteq> Some (S ''teacher'')" by blast
    with assms(1,2) look show ?thesis by (simp add: admin_assign_teacher_def)
  qed
  then show ?thesis by simp
qed

theorem assign_teacher_rejects_non_teacher_witness:
  "admin_assign_teacher demoEnv ''CS101-Monday-09:00'' demoStudent ''Test User 1'' demoWorld
     = (json 404 [(''success'', B False),
                  (''error'', S ''Teacher not found or invalid role'')], demoWorld)
   \<and> admin_assign_teacher demoEnv ''CS101-Monday-09:00'' ''TEACH999'' [] demoWorld
     = (json 404 [(''success'', B False),
                  (''error'', S ''Teacher not found or invalid role'')], demoWorld)"
proof -
  have 1: "\<not> missing ''CS101-Monday-09:00''" and 2: "\<not> missing ''TEACH999''"
    by (simp_all add: missing_def)
  have role: "attr [(''userId'', S ''10000000042''), (''name'', S ''Test User 1''),
             (''email'', S ''test1@example.com''), (''role'', S ''student''),
             (''approved'', B False), (''faceImage'', S demoImage)] ''role''
               \<noteq> Some (S ''teacher'')"
    by (simp add: attr_def)
  have a: "ddb demoWorld USERS_TABLE demoStudent = None
         \<or> (\<exists>u. ddb demoWorld USERS_TABLE demoStudent = Some u
                \<and> attr u ''role'' \<noteq> Some (S ''teacher''))"
    using demo_student role by simp
  have "ddb demoWorld USERS_TABLE ''TEACH999'' = None"
    by (simp add: demoWorld_sessions demoUsers_def)
  then have b: "ddb demoWorld USERS_TABLE ''TEACH999'' = None
         \<or> (\<exists>u. ddb demoWorld USERS_TABLE ''TEACH999'' = Some u
                \<and> attr u ''role'' \<noteq> Some (S ''teacher''))" ..
  from assign_teacher_rejects_non_teacher [OF 1 demo_names_present(1) demoEnv_sel(6) a]
    assign_teacher_rejects_non_teacher [OF 1 2 demoEnv_sel(6) b]
  show ?thesis by blast
qed

section \<open>Face verification\<close>

lemma findMatch_Some_iff:
  "(\<exists>m. findMatch userId fm = Some m)
     \<longleftrightarrow> (\<exists>ms. fm = Some ms \<and> (\<exists>m\<in>set ms. ExternalImageId (Face m) = Some userId))"
proof (cases fm)
  case None
  then show ?thesis by (simp add: findMatch_def)
next
  case (Some ms)
  have "(\<exists>m. find (\<lambda>f. ExternalImageId (Face f) = Some userId) ms = Some m)
          \<longleftrightarrow> (\<exists>m\<in>set ms. ExternalImageId (Face m) = Some userId)"
    using find_None_iff [of "\<lambda>f. ExternalImageId (Face f) = Some userId" ms]
    by (cases "find (\<lambda>f. ExternalImageId (Face f) = Some userId) ms") auto
  with Some show ?thesis by (simp add: findMatch_def)
qed

text \<open>
  Claim C6. For a verify-face request (both fields given) of an existing user, the answer
  has \<open>success = true\<close> exactly when the search returned a candidate whose external image
  id is the user id of the request. When the search returned, and no candidate carries that
  id (none at all, or only other users'), the answer is the plain status-200 object with
  \<open>success = false\<close> and the message \<open>Face not matched\<close>, with no error field.
\<close>

theorem verify_face_needs_own_reference:
  assumes "\<not> missing userId" and "\<not> missing imageBase64"
    and "rejects e (GetCommand USERS_TABLE userId) = None"
    and "ddb w USERS_TABLE userId = Some user"
  shows "(attr (body (fst (auth_verify_face e userId imageBase64 w))) ''success'' = Some (B True))
           = (\<exists>ms. searchFacesByImage e (REKOG_COLLECTION e) (imageBufferOf imageBase64) 1
                      (FACE_MATCH_THRESHOLD e) = SearchResponse (Some ms)
                 \<and> (\<exists>m\<in>set ms. ExternalImageId (Face m) = Some userId))
       \<and> (\<forall>fm. searchFacesByImage e (REKOG_COLLECTION e) (imageBufferOf imageBase64) 1
                      (FACE_MATCH_THRESHOLD e) = SearchResponse fm
               \<and> \<not> (\<exists>ms. fm = Some ms \<and> (\<exists>m\<in>set ms. ExternalImageId (Face m) = Some userId))
             \<longrightarrow> auth_verify_face e userId imageBase64 w
                   = (json 200 [(''success'', B False), (''message'', S ''Face not matched'')], w))"
proof -
  have look: "ddbGet e USERS_TABLE (Some (S userId)) w = Inr (Some user)"
    using assms(1,3,4) by (simp add: ddbGet_present)
  show ?thesis
  proof (cases "searchFacesByImage e (REKOG_COLLECTION e) (imageBufferOf imageBase64) 1
                      (FACE_MATCH_THRESHOLD e)")
    case (SearchError nm msg)
    with assms(1,2) look show ?thesis
      by (simp add: auth_verify_face_def serverError_def json_def attr_def)
  next
    case (SearchResponse fm)
    show ?thesis
    proof (cases "findMatch userId fm")
      case None
      with findMatch_Some_iff [of userId fm]
      have no: "\<not> (\<exists>ms. fm = Some ms \<and> (\<exists>m\<in>set ms. ExternalImageId (Face m) = Some userId))"
        by simp
      from None SearchResponse assms(1,2) look
      have "auth_verify_face e userId imageBase64 w
              = (json 200 [(''success'', B False), (''message'', S ''Face not matched'')], w)"
        by (simp add: auth_verify_face_def)
      with no SearchResponse show ?thesis by (simp add: json_def attr_def)
    next
      case (Some matched)
      with findMatch_Some_iff [of userId fm]
      have yes: "\<exists>ms. fm = Some ms \<and> (\<exists>m\<in>set ms. ExternalImageId (Face m) = Some userId)"
        by blast
      from Some SearchResponse assms(1,2) look
      have "auth_verify_face e userId imageBase64 w
              = (json 200 [(''success'', B True), (''message'', S ''Face matched''),
                           (''similarity'', N (Similarity matched))], w)"
        by (simp add: auth_verify_face_def)
      with yes SearchResponse show ?thesis by (simp add: json_def attr_def)
    qed
  qed
qed

theorem verify_face_needs_own_reference_witness:
  "auth_verify_face (matchingEnv ''TEACH001'') demoStudent demoImage demoWorld
     = (json 200 [(''success'', B False), (''message'', S ''Face not matched'')], demoWorld)
   \<and> attr (body (fst (auth_verify_face (matchingEnv demoStudent) demoStudent demoImage
                        demoWorld))) ''success'' = Some (B True)"
proof -
  have img: "\<not> missing demoImage" by (simp add: missing_def demoImage_def)
  have get: "rejects (matchingEnv x) (GetCommand USERS_TABLE demoStudent) = None" for x
    by (simp add: matchingEnv_def demoEnv_def)
  have search: "searchFacesByImage (matchingEnv x) (REKOG_COLLECTION (matchingEnv x))
                  (imageBufferOf demoImage) 1 (FACE_MATCH_THRESHOLD (matchingEnv x))
                  = SearchResponse (Some [matchOf x])" for x
    by (simp add: matchingEnv_def)
  have other: "\<not> (\<exists>ms. Some [matchOf ''TEACH001''] = Some ms
                    \<and> (\<exists>m\<in>set ms. ExternalImageId (Face m) = Some demoStudent))"
    by (simp add: matchOf_def demoStudent_def)
  have own: "\<exists>ms. searchFacesByImage (matchingEnv demoStudent)
                  (REKOG_COLLECTION (matchingEnv demoStudent))
                  (imageBufferOf demoImage) 1 (FACE_MATCH_THRESHOLD (matchingEnv demoStudent))
                  = SearchResponse (Some ms)
              \<and> (\<exists>m\<in>set ms. ExternalImageId (Face m) = Some demoStudent)"
    using search [of demoStudent] by (simp add: matchOf_def)
  note a = verify_face_needs_own_reference [OF demo_names_present(1) img get demo_student,
      of "''TEACH001''"]
  note b = verify_face_needs_own_reference [OF demo_names_present(1) img get demo_student,
      of demoStudent]
  from a [THEN conjunct2] search [of "''TEACH001''"] other
  have "auth_verify_face (matchingEnv ''TEACH001'') demoStudent demoImage demoWorld
     = (json 200 [(''success'', B False), (''message'', S ''Face not matched'')], demoWorld)"
    by blast
  moreover from b [THEN conjunct1] own
  have "attr (body (fst (auth_verify_face (matchingEnv demoStudent) demoStudent demoImage
                        demoWorld))) ''success'' = Some (B True)"
    by simp
  ultimately show ?thesis by blast
qed

section \<open>Approving twice\<close>

lemma approvedUser_attrs:
  "attr (setAttrs (approvalUpdate e password faceId key) user) ''faceImage''
     = attr user ''faceImage''"
  "attr (setAttrs (approvalUpdate e password faceId key) user) ''approved'' = Some (B True)"
  "attr (setAttrs (approvalUpdate e password faceId key) user) ''password'' = Some (S password)"
  by (simp_all add: approvalUpdate_def setAttrs_def attr_update)

lemma admin_approve_ok:
  assumes "\<not> missing userId" and "\<not> missing password"
    and "rejects e (GetCommand USERS_TABLE userId) = None"
    and "ddb w USERS_TABLE userId = Some user"
    and "attr user ''faceImage'' = Some (S faceImage)" and "faceImage \<noteq> []"
    and "rejects e (PutObjectCommand (userId @ ''.jpg'')) = None"
    and "rejects e (IndexFacesCommand userId) = None"
    and "rejects e (UpdateCommand USERS_TABLE userId) = None"
  shows "admin_approve e userId password w
     = (json 200 [(''success'', B True), (''message'', S ''User approved and face indexed''),
                  (''faceId'', firstFaceId (detectedFaces e (REKOG_COLLECTION e)
                                              (imageBufferOf faceImage) userId))],
        w\<lparr>bucket := (bucket w)(userId @ ''.jpg'' \<mapsto> imageBufferOf faceImage),
          collection := collection w @ map (tagged userId)
             (detectedFaces e (REKOG_COLLECTION e) (imageBufferOf faceImage) userId),
          ddb := (ddb w)(USERS_TABLE := (ddb w USERS_TABLE)(userId \<mapsto>
             setAttrs (approvalUpdate e password
                 (firstFaceId (detectedFaces e (REKOG_COLLECTION e) (imageBufferOf faceImage)
                    userId)) (userId @ ''.jpg'')) user))\<rparr>)"
proof -
  have look: "ddbGet e USERS_TABLE (Some (S userId)) w = Inr (Some user)"
    using assms(1,3,4) by (simp add: ddbGet_present)
  have img: "truthy (attr user ''faceImage'')" using assms(5,6) by simp
  have up: "uploadToS3 e (userId @ ''.jpg'') (imageBufferOf faceImage) w
              = Inr (w\<lparr>bucket := (bucket w)(userId @ ''.jpg'' \<mapsto> imageBufferOf faceImage)\<rparr>)"
    using assms(7) by (simp add: uploadToS3_def)
  have nonempty: "userId \<noteq> []" using assms(1) by (simp add: missing_def)
  show ?thesis
    using assms(1,2) look img up assms(4,5,8,9) nonempty
    by (simp add: admin_approve_def indexFaces_def ddbUpdate_def Let_def)
qed

text \<open>
  Claim C5. Approval does not look at the approval state. For an existing user with a
  stored face image, with the stores accepting the calls and the service finding a face in
  the photo, a first approval succeeds and marks the user approved, and a second approval
  with the same identifier succeeds just the same: the photo is uploaded again and the
  collection receives the faces of both index calls, all tagged with the identifier, so at
  least two entries more than before.
\<close>

theorem approve_twice_indexes_twice:
  assumes "\<not> missing userId" and "\<not> missing password"
    and "ddb w USERS_TABLE userId = Some user"
    and "attr user ''faceImage'' = Some (S faceImage)" and "faceImage \<noteq> []"
    and "\<forall>c\<in>{GetCommand USERS_TABLE userId, PutObjectCommand (userId @ ''.jpg''),
              IndexFacesCommand userId, UpdateCommand USERS_TABLE userId}.
            rejects e1 c = None \<and> rejects e2 c = None"
    and "detectedFaces e1 (REKOG_COLLECTION e1) (imageBufferOf faceImage) userId = f1 # more1"
    and "detectedFaces e2 (REKOG_COLLECTION e2) (imageBufferOf faceImage) userId = f2 # more2"
  shows "attr (body (fst (admin_approve e1 userId password w))) ''success'' = Some (B True)
       \<and> (\<exists>u1. ddb (snd (admin_approve e1 userId password w)) USERS_TABLE userId = Some u1
                \<and> attr u1 ''approved'' = Some (B True))
       \<and> attr (body (fst (admin_approve e2 userId password
                             (snd (admin_approve e1 userId password w))))) ''success''
           = Some (B True)
       \<and> collection (snd (admin_approve e2 userId password
                             (snd (admin_approve e1 userId password w))))
           = collection w @ map (tagged userId) (f1 # more1) @ map (tagged userId) (f2 # more2)
       \<and> length (filter (\<lambda>f. ExternalImageId f = Some userId) (collection w)) + 2
           \<le> length (filter (\<lambda>f. ExternalImageId f = Some userId)
                (collection (snd (admin_approve e2 userId password
                                   (snd (admin_approve e1 userId password w))))))
       \<and> bucket (snd (admin_approve e2 userId password
                         (snd (admin_approve e1 userId password w)))) (userId @ ''.jpg'')
           = Some (imageBufferOf faceImage)"
proof -
  let ?d1 = "detectedFaces e1 (REKOG_COLLECTION e1) (imageBufferOf faceImage) userId"
  let ?d2 = "detectedFaces e2 (REKOG_COLLECTION e2) (imageBufferOf faceImage) userId"
  let ?u1 = "setAttrs (approvalUpdate e1 password (firstFaceId ?d1) (userId @ ''.jpg'')) user"
  let ?w1 = "w\<lparr>bucket := (bucket w)(userId @ ''.jpg'' \<mapsto> imageBufferOf faceImage),
          collection := collection w @ map (tagged userId) ?d1,
          ddb := (ddb w)(USERS_TABLE := (ddb w USERS_TABLE)(userId \<mapsto> ?u1))\<rparr>"
  from assms(6) have acc1:
      "rejects e1 (GetCommand USERS_TABLE userId) = None"
      "rejects e1 (PutObjectCommand (userId @ ''.jpg'')) = None"
      "rejects e1 (IndexFacesCommand userId) = None"
      "rejects e1 (UpdateCommand USERS_TABLE userId) = None"
    and acc2:
      "rejects e2 (GetCommand USERS_TABLE userId) = None"
      "rejects e2 (PutObjectCommand (userId @ ''.jpg'')) = None"
      "rejects e2 (IndexFacesCommand userId) = None"
      "rejects e2 (UpdateCommand USERS_TABLE userId) = None"
    by simp_all
  have first: "admin_approve e1 userId password w
     = (json 200 [(''success'', B True), (''message'', S ''User approved and face indexed''),
                  (''faceId'', firstFaceId ?d1)], ?w1)"
    by (rule admin_approve_ok [OF assms(1,2) acc1(1) assms(3,4,5) acc1(2,3,4)])
  have stored: "ddb ?w1 USERS_TABLE userId = Some ?u1" by simp
  have photo: "attr ?u1 ''faceImage'' = Some (S faceImage)"
    using assms(4) by (simp add: approvedUser_attrs)
  have second: "admin_approve e2 userId password ?w1
     = (json 200 [(''success'', B True), (''message'', S ''User approved and face indexed''),
                  (''faceId'', firstFaceId ?d2)],
        ?w1\<lparr>bucket := (bucket ?w1)(userId @ ''.jpg'' \<mapsto> imageBufferOf faceImage),
          collection := collection ?w1 @ map (tagged userId) ?d2,
          ddb := (ddb ?w1)(USERS_TABLE := (ddb ?w1 USERS_TABLE)(userId \<mapsto>
             setAttrs (approvalUpdate e2 password (firstFaceId ?d2) (userId @ ''.jpg'')) ?u1))\<rparr>)"
    by (rule admin_approve_ok [OF assms(1,2) acc2(1) stored photo assms(5) acc2(2,3,4)])
  have ok1: "attr (body (fst (admin_approve e1 userId password w))) ''success'' = Some (B True)"
    by (simp add: first json_def attr_def)
  have approved: "\<exists>u1. ddb (snd (admin_approve e1 userId password w)) USERS_TABLE userId = Some u1
                \<and> attr u1 ''approved'' = Some (B True)"
    by (simp add: first approvedUser_attrs)
  have ok2: "attr (body (fst (admin_approve e2 userId password
                             (snd (admin_approve e1 userId password w))))) ''success''
           = Some (B True)"
    by (simp add: first second json_def attr_def)
  have coll: "collection (snd (admin_approve e2 userId password
                             (snd (admin_approve e1 userId password w))))
           = collection w @ map (tagged userId) (f1 # more1) @ map (tagged userId) (f2 # more2)"
  proof -
    have "collection (snd (admin_approve e2 userId password
                             (snd (admin_approve e1 userId password w))))
           = collection w @ map (tagged userId) ?d1 @ map (tagged userId) ?d2"
      by (simp add: first second)
    then show ?thesis by (simp only: assms(7,8))
  qed
  have tag: "filter (\<lambda>f. ExternalImageId f = Some userId) (map (tagged userId) ds)
               = map (tagged userId) ds" for ds
    by (induction ds) (simp_all add: tagged_def)
  have count: "length (filter (\<lambda>f. ExternalImageId f = Some userId) (collection w)) + 2
           \<le> length (filter (\<lambda>f. ExternalImageId f = Some userId)
                (collection (snd (admin_approve e2 userId password
                                   (snd (admin_approve e1 userId password w))))))"
    unfolding coll filter_append tag by simp
  have kept: "bucket (snd (admin_approve e2 userId password
                         (snd (admin_approve e1 userId password w)))) (userId @ ''.jpg'')
           = Some (imageBufferOf faceImage)"
    by (simp add: first second)
  from ok1 approved ok2 coll count kept show ?thesis by blast
qed

theorem approve_twice_indexes_twice_witness:
  "attr [(''userId'', S ''10000000042''), (''name'', S ''Test User 1''),
         (''email'', S ''test1@example.com''), (''role'', S ''student''),
         (''approved'', B False), (''faceImage'', S demoImage)] ''approved'' = Some (B False)
   \<and> collection demoWorld = []
   \<and> collection (snd (admin_approve laterEnv demoStudent ''testpassword123''
                        (snd (admin_approve demoEnv demoStudent ''testpassword123'' demoWorld))))
       = [tagged demoStudent ''face-0001'', tagged demoStudent ''face-0001'']"
proof -
  have pw: "\<not> missing ''testpassword123''" by (simp add: missing_def)
  have img: "attr [(''userId'', S ''10000000042''), (''name'', S ''Test User 1''),
         (''email'', S ''test1@example.com''), (''role'', S ''student''),
         (''approved'', B False), (''faceImage'', S demoImage)] ''faceImage''
           = Some (S demoImage)"
    and pending: "attr [(''userId'', S ''10000000042''), (''name'', S ''Test User 1''),
         (''email'', S ''test1@example.com''), (''role'', S ''student''),
         (''approved'', B False), (''faceImage'', S demoImage)] ''approved'' = Some (B False)"
    by (simp_all add: attr_def)
  have nonempty: "demoImage \<noteq> []" by (simp add: demoImage_def)
  have accepts: "\<forall>c\<in>{GetCommand USERS_TABLE demoStudent, PutObjectCommand (demoStudent @ ''.jpg''),
              IndexFacesCommand demoStudent, UpdateCommand USERS_TABLE demoStudent}.
            rejects demoEnv c = None \<and> rejects laterEnv c = None"
    by (simp add: demoEnv_sel laterEnv_sel)
  have d1: "detectedFaces demoEnv (REKOG_COLLECTION demoEnv) (imageBufferOf demoImage) demoStudent
              = ''face-0001'' # []"
    by (simp add: demoEnv_sel)
  have d2: "detectedFaces laterEnv (REKOG_COLLECTION laterEnv) (imageBufferOf demoImage)
              demoStudent = ''face-0001'' # []"
    by (simp add: laterEnv_def demoEnv_def)
  have empty: "collection demoWorld = []" by (simp add: demoWorld_def)
  note run = approve_twice_indexes_twice [OF demo_names_present(1) pw demo_student img nonempty
      accepts d1 d2]
  from run [THEN conjunct2, THEN conjunct2, THEN conjunct2, THEN conjunct1] empty pending
  show ?thesis by simp
qed

end
